theory Spec2Isabelle
  imports Main "HOL-Library.Word" "HOL-Library.Sublist" "HOL-Library.Multiset"
begin

section \<open>JavaScript values\<close>

text \<open>
  A JavaScript string is modelled as a \<open>string\<close> whose characters are the string's code
  units; the model covers the strings whose code units are below 256. This is the whole
  range for an HTTP header value (Node decodes header bytes as Latin-1) and for every
  literal of the source.

  A Buffer is a list of bytes. \<open>Buffer.from(s)\<close> encodes a string as UTF-8: a code unit
  below 128 is one byte, a code unit from 128 to 255 is two.
\<close>

type_synonym byte = "8 word"

definition utf8_unit :: "char \<Rightarrow> byte list" where
  "utf8_unit c =
     (let n = (of_char c :: nat)
      in if n < 128 then [of_nat n] else [of_nat (192 + n div 64), of_nat (128 + n mod 64)])"

definition Buffer_from :: "string \<Rightarrow> byte list" where
  "Buffer_from s = concat (map utf8_unit s)"

text \<open>
  The values \<open>JSON.parse\<close> returns. \<open>'n\<close> is the type of JavaScript numbers, which the
  model leaves abstract. A \<open>JObj\<close> holds the own properties of the object in the order
  JavaScript enumerates them, each key once. \<open>undefined\<close> is \<open>None\<close> of an option.
\<close>

datatype 'n json =
    JNull
  | JBool bool
  | JNum 'n
  | JStr string
  | JArr "'n json list"
  | JObj "(string \<times> 'n json) list"

text \<open>
  The functions of the Node runtime and its libraries that the source calls and that are
  not code of the repository. \<open>hmac_sha256 key data\<close> is the digest of
  \<open>crypto.createHmac('sha256', key).update(data)\<close>, \<open>JSON_parse\<close> is \<open>None\<close> where
  \<open>JSON.parse\<close> throws, \<open>Number_truthy\<close> is the truth value of a number in a condition and
  \<open>Number_toString\<close> its conversion to a string.
\<close>

record 'n node =
  hmac_sha256 :: "string \<Rightarrow> byte list \<Rightarrow> 256 word"
  hmac_sha1 :: "string \<Rightarrow> byte list \<Rightarrow> 160 word"
  Buffer_toString :: "byte list \<Rightarrow> string"
  JSON_parse :: "string \<Rightarrow> 'n json option"
  Number_truthy :: "'n \<Rightarrow> bool"
  Number_toString :: "'n \<Rightarrow> string"

text \<open>\<open>digest('hex')\<close>: two lower-case hexadecimal digits for each byte of the digest.\<close>

definition hexdigit :: "nat \<Rightarrow> char" where
  "hexdigit n = ''0123456789abcdef'' ! (n mod 16)"

definition hex :: "'a::len word \<Rightarrow> string" where
  "hex w = map (\<lambda>i. hexdigit (unat (drop_bit (4 * i) w))) (rev [0..<LENGTH('a) div 4])"

text \<open>The truth value of a JSON value in a condition (\<open>if (v)\<close>, \<open>v && ...\<close>, \<open>v || ...\<close>).\<close>

fun js_truthy :: "'n node \<Rightarrow> 'n json \<Rightarrow> bool" where
  "js_truthy rt JNull = False"
| "js_truthy rt (JBool b) = b"
| "js_truthy rt (JNum n) = Number_truthy rt n"
| "js_truthy rt (JStr s) = (s \<noteq> [])"
| "js_truthy rt (JArr xs) = True"
| "js_truthy rt (JObj kvs) = True"

definition truthy :: "'n node \<Rightarrow> 'n json option \<Rightarrow> bool" where
  "truthy rt v = (case v of None \<Rightarrow> False | Some j \<Rightarrow> js_truthy rt j)"

text \<open>
  Reading a property \<open>v.k\<close> of a JSON value that is neither \<open>null\<close> nor \<open>undefined\<close>, for
  the names the source reads (\<open>repository\<close>, \<open>full_name\<close>, \<open>ref\<close>, \<open>pusher\<close>, \<open>name\<close>,
  \<open>sender\<close>, \<open>login\<close>, \<open>action\<close>, \<open>number\<close>, \<open>scripts\<close>, \<open>start\<close>, \<open>test\<close>, \<open>main\<close>): none
  of them is a property that strings, numbers, booleans, arrays or \<open>Object.prototype\<close>
  have, so only an own property of an object answers.
\<close>

fun get_prop :: "'n json \<Rightarrow> string \<Rightarrow> 'n json option" where
  "get_prop (JObj kvs) k = map_of kvs k"
| "get_prop v k = None"

text \<open>Optional chaining \<open>v?.k\<close>: \<open>undefined\<close> when \<open>v\<close> is \<open>null\<close> or \<open>undefined\<close>.\<close>

fun opt_chain :: "'n json option \<Rightarrow> string \<Rightarrow> 'n json option" where
  "opt_chain None k = None"
| "opt_chain (Some JNull) k = None"
| "opt_chain (Some v) k = get_prop v k"

text \<open>\<open>a || b\<close> on values.\<close>

definition js_or :: "'n node \<Rightarrow> 'n json option \<Rightarrow> 'n json option \<Rightarrow> 'n json option" where
  "js_or rt a b = (if truthy rt a then a else b)"

text \<open>The exceptions of the runtime that the source can meet.\<close>

datatype exn = TypeError | RangeError

text \<open>
  \<open>ToString\<close>, which a template literal \<open>`${v}`\<close> applies to the value of each of its
  expressions. An array is converted by \<open>Array.prototype.join\<close>: the conversions of its
  elements, \<open>null\<close> as the empty string, with commas between them. An object is converted
  by its method \<open>toString\<close>, and by \<open>valueOf\<close> when \<open>toString\<close> is not a function. An object
  of \<open>JSON.parse\<close> with no own property \<open>toString\<close> inherits the method of
  \<open>Object.prototype\<close>, which answers \<open>[object Object]\<close>. An own property \<open>toString\<close> of
  such an object is a JSON value and no function; \<open>valueOf\<close> is then an own property that
  is no function either, or the inherited method that returns the object itself, so no
  primitive value is had and the conversion throws a TypeError.
\<close>

fun join_commas :: "(exn + string) list \<Rightarrow> exn + string" where
  "join_commas [] = Inr []"
| "join_commas [r] = r"
| "join_commas (r # s # rs) =
     (case r of
        Inl e \<Rightarrow> Inl e
      | Inr a \<Rightarrow> (case join_commas (s # rs) of Inl e \<Rightarrow> Inl e | Inr b \<Rightarrow> Inr (a @ '','' @ b)))"

fun js_toString :: "'n node \<Rightarrow> 'n json \<Rightarrow> exn + string" where
  "js_toString rt JNull = Inr ''null''"
| "js_toString rt (JBool b) = Inr (if b then ''true'' else ''false'')"
| "js_toString rt (JNum n) = Inr (Number_toString rt n)"
| "js_toString rt (JStr s) = Inr s"
| "js_toString rt (JArr xs) =
     join_commas (map (\<lambda>x. if x = JNull then Inr [] else js_toString rt x) xs)"
| "js_toString rt (JObj kvs) =
     (if map_of kvs ''toString'' = None then Inr ''[object Object]'' else Inl TypeError)"

text \<open>The same on a value that may be \<open>undefined\<close>.\<close>

definition ToString :: "'n node \<Rightarrow> 'n json option \<Rightarrow> exn + string" where
  "ToString rt v = (case v of None \<Rightarrow> Inr ''undefined'' | Some j \<Rightarrow> js_toString rt j)"

section \<open>The webhook handler (\<open>server.js\<close>, \<open>app.post('/webhook')\<close>)\<close>

text \<open>
  The request as the handler reads it. \<open>body\<close> is \<open>req.body\<close>: the Buffer that
  \<open>express.raw\<close> made of a request of type \<open>application/json\<close>, and \<open>None\<close> for a request
  that the body parser left alone. A header is \<open>None\<close> when the request has none of that
  name (\<open>req.headers[name]\<close> is \<open>undefined\<close>); a header sent with an empty value is
  \<open>Some []\<close>.
\<close>

record request =
  body :: "byte list option"
  x_hub_signature_256 :: "string option"
  x_hub_signature :: "string option"
  x_github_event :: "string option"
  x_github_delivery :: "string option"

record config =
  WEBHOOK_SECRET :: string
  SKIP_WEBHOOK_VERIFY :: bool

text \<open>
  What the handler does besides answering: the lines it prints and the calls it makes
  into \<open>crypto\<close>, in order. A printed line is given by its message (written in
  ASCII: a dash for the long dash of line 132, no check mark in line 145) and the values
  printed after it.
\<close>

datatype 'n effect =
    Console string "'n json option list"
  | CreateHmac string
  | TimingSafeEqual "byte list" "byte list"

text \<open>
  The answer: the status and the text sent, and for a request answered with 200 the values
  of the handler's variables \<open>event\<close>, \<open>delivery\<close> and \<open>payload\<close>.
\<close>

record 'n response =
  status :: nat
  sent :: string
  received :: "(string \<times> string \<times> 'n json) option"

text \<open>\<open>crypto.timingSafeEqual(a, b)\<close> throws a RangeError on buffers of different lengths.\<close>

definition timingSafeEqual :: "byte list \<Rightarrow> byte list \<Rightarrow> exn + bool" where
  "timingSafeEqual a b = (if length a \<noteq> length b then Inl RangeError else Inr (a = b))"

text \<open>
  Lines 110 to 114 and 121 to 123: the condition
  \<open>headerBuf.length !== computedBuf.length || !crypto.timingSafeEqual(headerBuf, computedBuf)\<close>
  with the calls its evaluation makes. \<open>||\<close> evaluates its right operand only when the
  left one is false.
\<close>

definition signature_mismatch :: "string \<Rightarrow> string \<Rightarrow> 'n effect list \<times> (exn + bool)" where
  "signature_mismatch header computed =
     (let headerBuf = Buffer_from header; computedBuf = Buffer_from computed
      in if length headerBuf \<noteq> length computedBuf then ([], Inr True)
         else ([TimingSafeEqual headerBuf computedBuf],
               (case timingSafeEqual headerBuf computedBuf of
                  Inl e \<Rightarrow> Inl e
                | Inr same \<Rightarrow> Inr (\<not> same))))"

text \<open>\<open>if (h)\<close> on a header: an absent header and an empty one are both false.\<close>

fun present :: "string option \<Rightarrow> string option" where
  "present None = None"
| "present (Some h) = (if h = [] then None else Some h)"

text \<open>\<open>req.headers[name] || dflt\<close>.\<close>

definition header_or :: "string option \<Rightarrow> string \<Rightarrow> string" where
  "header_or h dflt = (case present h of None \<Rightarrow> dflt | Some v \<Rightarrow> v)"

text \<open>
  Lines 138 to 143: \<open>payload\<close> starts as the empty object \<open>{}\<close> and is replaced by the
  parsed body; when \<open>JSON.parse(req.body.toString())\<close> throws, the handler prints a warning
  and \<open>payload\<close> keeps its first value. A \<open>req.body\<close> that is not a Buffer does not parse
  either.
\<close>

definition parse_payload :: "'n node \<Rightarrow> byte list option \<Rightarrow> 'n json \<times> 'n effect list" where
  "parse_payload rt b =
     (case (case b of None \<Rightarrow> None | Some buf \<Rightarrow> JSON_parse rt (Buffer_toString rt buf)) of
        None \<Rightarrow> (JObj [], [Console ''Failed to parse webhook JSON payload'' []])
      | Some v \<Rightarrow> (v, []))"

text \<open>
  Lines 147 to 158: the lines printed about the payload. Each line is a template literal,
  evaluated before \<open>console.log\<close> is called: when the conversion of one of its values
  throws, the line is not printed and the exception leaves the block. The second component
  is the exception thrown, if any.
\<close>

definition payload_log :: "'n node \<Rightarrow> string \<Rightarrow> 'n json \<Rightarrow> 'n effect list \<times> exn option" where
  "payload_log rt event payload =
     (if js_truthy rt payload \<and> (case payload of JObj _ \<Rightarrow> True | JArr _ \<Rightarrow> True | _ \<Rightarrow> False)
      then
        (let repoFullName = opt_chain (get_prop payload ''repository'') ''full_name'';
             (repo_line, thrown) =
               (if truthy rt repoFullName then
                  (case ToString rt repoFullName of
                     Inl e \<Rightarrow> ([], Some e)
                   | Inr s \<Rightarrow> ([Console (''Repository: '' @ s) []], None))
                else ([], None))
         in case thrown of
              Some e \<Rightarrow> (repo_line, Some e)
            | None \<Rightarrow>
                (if event = ''ping'' then
                   (repo_line @ [Console ''Ping event received from GitHub'' []], None)
                 else if event = ''push'' then
                   (case ToString rt (get_prop payload ''ref'') of
                      Inl e \<Rightarrow> (repo_line, Some e)
                    | Inr r \<Rightarrow>
                        (case ToString rt (js_or rt (opt_chain (get_prop payload ''pusher'') ''name'')
                                                    (opt_chain (get_prop payload ''sender'') ''login'')) of
                           Inl e \<Rightarrow> (repo_line, Some e)
                         | Inr who \<Rightarrow>
                             (repo_line @ [Console (''Push to '' @ r @ '' by '' @ who) []], None)))
                 else if event = ''pull_request'' then
                   (case ToString rt (get_prop payload ''action'') of
                      Inl e \<Rightarrow> (repo_line, Some e)
                    | Inr a \<Rightarrow>
                        (case ToString rt (get_prop payload ''number'') of
                           Inl e \<Rightarrow> (repo_line, Some e)
                         | Inr n \<Rightarrow>
                             (repo_line @
                              [Console (''Pull request action='' @ a @ '' number='' @ n) []], None)))
                 else (repo_line, None)))
      else ([], None))"

text \<open>
  Lines 135 to 163: what the handler does once the signature is accepted or skipped. The
  answer is 200 unless a line about the payload threw.
\<close>

definition accept :: "'n node \<Rightarrow> request \<Rightarrow> 'n effect list \<times> (exn + 'n response)" where
  "accept rt req =
     (let event = header_or (x_github_event req) ''unknown'';
          delivery = header_or (x_github_delivery req) [];
          (payload, warned) = parse_payload rt (body req);
          (logged, thrown) = payload_log rt event payload
      in (warned @
          [Console (''Webhook received: event='' @ event @ '' delivery='' @ delivery) []] @
          logged,
          (case thrown of
             Some e \<Rightarrow> Inl e
           | None \<Rightarrow> Inr \<lparr>status = 200, sent = ''ok'', received = Some (event, delivery, payload)\<rparr>)))"

text \<open>
  Lines 108 to 117 and 119 to 126: one signature scheme. \<open>alg\<close> is the name of the hash,
  \<open>mac\<close> the keyed hash of the runtime, already in hexadecimal. \<open>update(req.body)\<close> throws
  a TypeError when \<open>req.body\<close> is not a Buffer.
\<close>

definition check_scheme ::
  "'n node \<Rightarrow> request \<Rightarrow> string \<Rightarrow> (byte list \<Rightarrow> string) \<Rightarrow> string \<Rightarrow> 'n effect list \<times> (exn + 'n response)" where
  "check_scheme rt req alg mac header =
     (case body req of
        None \<Rightarrow> ([CreateHmac alg], Inl TypeError)
      | Some buf \<Rightarrow>
          (let computed = alg @ ''='' @ mac buf;
               (calls, r) = signature_mismatch header computed
           in case r of
                Inl e \<Rightarrow> (CreateHmac alg # calls, Inl e)
              | Inr True \<Rightarrow>
                  (CreateHmac alg # calls @
                   [Console (''Invalid webhook signature ('' @ alg @ '').'')
                      [Some (JStr header), Some (JStr computed)]],
                   Inr \<lparr>status = 401, sent = ''Invalid signature'', received = None\<rparr>)
              | Inr False \<Rightarrow>
                  (let (es, a) = accept rt req in (CreateHmac alg # calls @ es, a))))"

text \<open>Lines 88 to 163: the body of the handler's \<open>try\<close>.\<close>

definition webhook_try :: "'n node \<Rightarrow> config \<Rightarrow> request \<Rightarrow> 'n effect list \<times> (exn + 'n response)" where
  "webhook_try rt cfg req =
     (let secret = WEBHOOK_SECRET cfg;
          unset = (if secret = [] then
                     [Console ''WEBHOOK_SECRET is not set. Set WEBHOOK_SECRET in .env for verification.'' []]
                   else []);
          sig256 = x_hub_signature_256 req;
          sig1 = x_hub_signature req;
          (es, r) =
            (if \<not> SKIP_WEBHOOK_VERIFY cfg then
               (if secret = [] then
                  ([Console ''Rejecting webhook because WEBHOOK_SECRET is missing.'' []],
                   Inr \<lparr>status = 500, sent = ''Webhook secret not configured on server'',
                        received = None\<rparr>)
                else
                  (case present sig256 of
                     Some header \<Rightarrow>
                       check_scheme rt req ''sha256'' (\<lambda>b. hex (hmac_sha256 rt secret b)) header
                   | None \<Rightarrow>
                       (case present sig1 of
                          Some header \<Rightarrow>
                            check_scheme rt req ''sha1'' (\<lambda>b. hex (hmac_sha1 rt secret b)) header
                        | None \<Rightarrow>
                            ([Console ''No signature header present on webhook request'' []],
                             Inr \<lparr>status = 401, sent = ''Missing signature header'',
                                  received = None\<rparr>))))
             else
               (let (es, a) = accept rt req
                in (Console ''DEBUG_WEBHOOK_NO_VERIFY is true - skipping signature verification (dev only)'' []
                    # es, a)))
      in (unset @ es, r))"

text \<open>Lines 87 to 167: the handler, with its \<open>catch\<close>.\<close>

definition webhook :: "'n node \<Rightarrow> config \<Rightarrow> request \<Rightarrow> 'n effect list \<times> 'n response" where
  "webhook rt cfg req =
     (case webhook_try rt cfg req of
        (es, Inl e) \<Rightarrow>
          (es @ [Console ''Webhook handler error'' []],
           \<lparr>status = 500, sent = ''server error'', received = None\<rparr>)
      | (es, Inr a) \<Rightarrow> (es, a))"

section \<open>Repository analysis (\<open>lib/analyze.js\<close>)\<close>

subsection \<open>Strings and regular expressions\<close>

text \<open>\<open>s.includes(sub)\<close> and \<open>s.startsWith(pre)\<close>.\<close>

fun js_includes :: "string \<Rightarrow> string \<Rightarrow> bool" where
  "js_includes [] sub = (sub = [])"
| "js_includes (c # cs) sub = (prefix sub (c # cs) \<or> js_includes cs sub)"

definition startsWith :: "string \<Rightarrow> string \<Rightarrow> bool" where
  "startsWith s pre = prefix pre s"

text \<open>
  \<open>s.toLowerCase()\<close> on code units below 256: the letters \<open>A\<close> to \<open>Z\<close> and the Latin-1
  capitals (192 to 222 but the multiplication sign 215) move up by 32.
\<close>

definition toLowerCase_unit :: "char \<Rightarrow> char" where
  "toLowerCase_unit c =
     (let n = (of_char c :: nat)
      in if (65 \<le> n \<and> n \<le> 90) \<or> (192 \<le> n \<and> n \<le> 222 \<and> n \<noteq> 215) then char_of (n + 32) else c)"

definition toLowerCase :: "string \<Rightarrow> string" where
  "toLowerCase s = map toLowerCase_unit s"

text \<open>
  A regular expression with the flag \<open>i\<close> compares characters after mapping them to upper
  case, and never lets a character from 128 on match an ASCII one. Every letter in the
  patterns of the source is ASCII, so it is enough to fold the ASCII letters.
\<close>

definition regex_canon :: "char \<Rightarrow> char" where
  "regex_canon c =
     (let n = (of_char c :: nat) in if 97 \<le> n \<and> n \<le> 122 then char_of (n - 32) else c)"

definition ci_prefix :: "string \<Rightarrow> string \<Rightarrow> bool" where
  "ci_prefix pat s = prefix (map regex_canon pat) (map regex_canon s)"

text \<open>\<open>\s\<close> (and what \<open>trim\<close> removes), the line terminators that \<open>.\<close> does not match, and \<open>[0-9]\<close>.\<close>

definition is_space :: "char \<Rightarrow> bool" where
  "is_space c = ((of_char c :: nat) \<in> {9, 10, 11, 12, 13, 32, 160})"

definition is_line_terminator :: "char \<Rightarrow> bool" where
  "is_line_terminator c = ((of_char c :: nat) \<in> {10, 13})"

definition is_digit :: "char \<Rightarrow> bool" where
  "is_digit c = (48 \<le> (of_char c :: nat) \<and> (of_char c :: nat) \<le> 57)"

definition trim :: "string \<Rightarrow> string" where
  "trim s = rev (dropWhile is_space (rev (dropWhile is_space s)))"

text \<open>
  A search without the flag \<open>g\<close> (\<open>s.match(re)\<close>, \<open>re.test(s)\<close>) tries the pattern at every
  position from the left, the end of the text included, and stops at the first position
  where it matches. \<open>m\<close> is the pattern tried at the start of a text.
\<close>

fun regex_exec :: "(string \<Rightarrow> 'a option) \<Rightarrow> string \<Rightarrow> 'a option" where
  "regex_exec m [] = m []"
| "regex_exec m (c # cs) = (case m (c # cs) of Some r \<Rightarrow> Some r | None \<Rightarrow> regex_exec m cs)"

text \<open>
  \<open>/KW\s+(.*)/i\<close> at the start of a text, giving group 1: the keyword, then the longest
  run of white space (at least one character), then the longest run of characters that
  are not line terminators.
\<close>

definition keyword_line :: "string \<Rightarrow> string \<Rightarrow> string option" where
  "keyword_line kw s =
     (if ci_prefix kw s then
        (let rest = drop (length kw) s
         in if takeWhile is_space rest = [] then None
            else Some (takeWhile (\<lambda>c. \<not> is_line_terminator c) (dropWhile is_space rest)))
      else None)"

text \<open>
  \<open>/EXPOSE\s+([0-9]+)/i\<close> at the start of a text, giving group 1 and the text after the
  match: the keyword, white space, then the longest run of digits (at least one).
\<close>

definition expose_here :: "string \<Rightarrow> (string \<times> string) option" where
  "expose_here s =
     (if ci_prefix ''EXPOSE'' s then
        (let rest = drop 6 s; after = dropWhile is_space rest
         in if takeWhile is_space rest = [] \<or> takeWhile is_digit after = [] then None
            else Some (takeWhile is_digit after, dropWhile is_digit after))
      else None)"

lemma expose_here_shorter: "expose_here s = Some (p, r) \<Longrightarrow> length r < length s"
proof -
  assume a: "expose_here s = Some (p, r)"
  then have pre: "ci_prefix ''EXPOSE'' s" and r: "r = dropWhile is_digit (dropWhile is_space (drop 6 s))"
    by (auto simp: expose_here_def Let_def split: if_splits)
  from pre have "6 \<le> length s"
    by (auto simp: ci_prefix_def dest: prefix_length_le)
  moreover have "length r \<le> length (drop 6 s)"
    unfolding r by (meson length_dropWhile_le order_trans)
  ultimately show ?thesis by simp
qed

text \<open>
  \<open>[...df.matchAll(/EXPOSE\s+([0-9]+)/ig)].map(x => x[1])\<close>: every match from left to
  right, each search starting where the match before ended.
\<close>

function exposed :: "string \<Rightarrow> string list" where
  "exposed [] = []"
| "exposed (c # cs) =
     (case expose_here (c # cs) of
        Some (port, rest) \<Rightarrow> port # exposed rest
      | None \<Rightarrow> exposed cs)"
  by pat_completeness auto
termination
  by (relation "measure length") (auto dest: expose_here_shorter)

text \<open>
  \<open>/(^|\/)(__tests__|tests|test)($|\/)/i\<close>: one of the three names, at the start of the
  path or after a slash, and ending the path or followed by a slash.
\<close>

definition test_name_here :: "string \<Rightarrow> bool" where
  "test_name_here s =
     list_ex (\<lambda>name. ci_prefix name s \<and>
                (case drop (length name) s of [] \<Rightarrow> True | c # _ \<Rightarrow> c = CHR ''/''))
       [''__tests__'', ''tests'', ''test'']"

fun test_name_after_slash :: "string \<Rightarrow> bool" where
  "test_name_after_slash [] = False"
| "test_name_after_slash (c # cs) = ((c = CHR ''/'' \<and> test_name_here cs) \<or> test_name_after_slash cs)"

definition test_folder :: "string \<Rightarrow> bool" where
  "test_folder p = (test_name_here p \<or> test_name_after_slash p)"

text \<open>\<open>/readme/i.test(p)\<close> and \<open>/license/i.test(p)\<close>.\<close>

definition regex_test_ci :: "string \<Rightarrow> string \<Rightarrow> bool" where
  "regex_test_ci pat p = (regex_exec (\<lambda>s. if ci_prefix pat s then Some () else None) p \<noteq> None)"


text \<open>\<open>Object.values(v)\<close> for a value that is neither \<open>null\<close> nor \<open>undefined\<close>.\<close>

fun Object_values :: "'n json \<Rightarrow> 'n json list" where
  "Object_values (JObj kvs) = map snd kvs"
| "Object_values (JArr xs) = xs"
| "Object_values (JStr s) = map (\<lambda>c. JStr [c]) s"
| "Object_values v = []"

subsection \<open>Languages (\<open>detectPrimaryLanguages\<close>)\<close>

text \<open>
  \<open>extCounts\<close> is an object from extensions to counts; it is modelled by
  \<open>Object.entries(extCounts)\<close>, its properties in the order JavaScript enumerates them,
  each key once.

  \<open>map\<close> is an object literal, so \<open>map[ext]\<close> answers for the fourteen keys written in
  it and also for the names every object inherits from \<open>Object.prototype\<close>, whose values
  are functions (for \<open>__proto__\<close> the prototype itself) and count as true in \<open>if (map[ext])\<close>.
\<close>

definition language_map :: "(string \<times> string) list" where
  "language_map =
     [(''js'', ''JavaScript''), (''ts'', ''TypeScript''), (''py'', ''Python''), (''java'', ''Java''),
      (''go'', ''Go''), (''rs'', ''Rust''), (''rb'', ''Ruby''), (''php'', ''PHP''),
      (''cpp'', ''C/C++''), (''c'', ''C/C++''), (''cs'', ''C#''), (''swift'', ''Swift''),
      (''kt'', ''Kotlin''), (''sh'', ''Shell'')]"

definition Object_prototype_names :: "string list" where
  "Object_prototype_names =
     [''constructor'', ''__defineGetter__'', ''__defineSetter__'', ''hasOwnProperty'',
      ''__lookupGetter__'', ''__lookupSetter__'', ''isPrototypeOf'', ''propertyIsEnumerable'',
      ''toString'', ''valueOf'', ''__proto__'', ''toLocaleString'']"

datatype language = Label string | Inherited string

definition map_get :: "string \<Rightarrow> language option" where
  "map_get ext =
     (case map_of language_map ext of
        Some l \<Rightarrow> Some (Label l)
      | None \<Rightarrow> if ext \<in> set Object_prototype_names then Some (Inherited ext) else None)"

text \<open>
  \<open>Array.prototype.sort(compareFn)\<close> is a stable sort: \<open>a\<close> stays before \<open>b\<close> unless
  \<open>compareFn(a, b) > 0\<close>.
\<close>

fun sort_insert :: "('a \<Rightarrow> 'a \<Rightarrow> int) \<Rightarrow> 'a \<Rightarrow> 'a list \<Rightarrow> 'a list" where
  "sort_insert compareFn x [] = [x]"
| "sort_insert compareFn x (y # ys) =
     (if compareFn x y > 0 then y # sort_insert compareFn x ys else x # y # ys)"

fun js_sort :: "('a \<Rightarrow> 'a \<Rightarrow> int) \<Rightarrow> 'a list \<Rightarrow> 'a list" where
  "js_sort compareFn [] = []"
| "js_sort compareFn (x # xs) = sort_insert compareFn x (js_sort compareFn xs)"

text \<open>Lines 45 to 47: the loop over \<open>ranked\<close> that pushes \<open>map[ext]\<close>.\<close>

fun push_languages :: "(string \<times> nat) list \<Rightarrow> language list \<Rightarrow> language list" where
  "push_languages [] languages = languages"
| "push_languages ((ext, n) # ranked) languages =
     push_languages ranked
       (case map_get ext of Some l \<Rightarrow> languages @ [l] | None \<Rightarrow> languages)"

text \<open>Line 43: the comparator \<open>(a, b) => b[1] - a[1]\<close> and the sorted entries.\<close>

definition compare_counts :: "string \<times> nat \<Rightarrow> string \<times> nat \<Rightarrow> int" where
  "compare_counts a b = int (snd b) - int (snd a)"

definition ranked_entries :: "(string \<times> nat) list \<Rightarrow> (string \<times> nat) list" where
  "ranked_entries extCounts = js_sort compare_counts extCounts"

definition detectPrimaryLanguages :: "(string \<times> nat) list \<Rightarrow> language list" where
  "detectPrimaryLanguages extCounts = take 3 (push_languages (ranked_entries extCounts) [])"

subsection \<open>The tree and the remote API\<close>

text \<open>
  An entry of the tree listing, and the answers of the API client for one analysis (one
  owner, repository and ref). \<open>getTree\<close> is the listing that the three calls of lines 98 to
  103 end with, \<open>None\<close> when one of them fails. \<open>getContent p\<close> is the answer to
  \<open>octokit.rest.repos.getContent\<close> for the path \<open>p\<close>: a failure (also a file without
  content, on which line 89 throws), a directory listing, or a file with its decoded text.
\<close>

record tree_entry =
  path :: string
  type :: string

datatype content = Rejected | Listing | Blob string

record octokit =
  getTree :: "tree_entry list option"
  getContent :: "string \<Rightarrow> content"

definition PATHS_OF_INTEREST :: "string list" where
  "PATHS_OF_INTEREST =
     [''package.json'', ''requirements.txt'', ''Pipfile'', ''pyproject.toml'', ''setup.py'',
      ''go.mod'', ''Cargo.toml'', ''Gemfile'', ''composer.json'',
      ''Dockerfile'', ''docker-compose.yml'', ''.env.example'', ''.env.sample'',
      ''Makefile'', ''Procfile'']"

definition CI_PATH_PREFIX :: string where
  "CI_PATH_PREFIX = ''.github/workflows/''"

definition priority :: "string list" where
  "priority =
     [''package.json'', ''pyproject.toml'', ''setup.py'', ''requirements.txt'', ''Pipfile'',
      ''Dockerfile'', ''docker-compose.yml'', ''.env.example'', ''.env.sample'', ''Makefile'']"

definition shortSnippet :: "string \<Rightarrow> nat \<Rightarrow> string" where
  "shortSnippet text max' =
     (if text = [] then []
      else if length text > max' then take max' text @ CHR 0x0A # ''...[truncated]''
      else text)"

definition safeGetFile :: "octokit \<Rightarrow> string \<Rightarrow> string option" where
  "safeGetFile oct p =
     (case getContent oct p of Rejected \<Rightarrow> None | Listing \<Rightarrow> None | Blob txt \<Rightarrow> Some txt)"

subsection \<open>Files of interest and the bounded fetch\<close>

text \<open>Lines 110 to 117.\<close>

fun interesting_files :: "tree_entry list \<Rightarrow> string list \<Rightarrow> string list" where
  "interesting_files [] filesFound = filesFound"
| "interesting_files (item # tree) filesFound =
     (if type item \<noteq> ''blob'' then interesting_files tree filesFound
      else if path item \<in> set PATHS_OF_INTEREST \<or> startsWith (path item) CI_PATH_PREFIX
              \<or> js_includes (toLowerCase (path item)) ''readme''
      then interesting_files tree (filesFound @ [path item])
      else interesting_files tree filesFound)"

text \<open>Lines 127 to 131.\<close>

fun workflow_files :: "tree_entry list \<Rightarrow> string list \<Rightarrow> string list" where
  "workflow_files [] filesFound = filesFound"
| "workflow_files (p # tree) filesFound =
     (if type p = ''blob'' \<and> startsWith (path p) CI_PATH_PREFIX
      then workflow_files tree (if path p \<in> set filesFound then filesFound else filesFound @ [path p])
      else workflow_files tree filesFound)"

text \<open>\<open>a.indexOf(v)\<close>, and \<open>a.filter((v, i, a) => a.indexOf(v) === i)\<close>.\<close>

fun indexOf :: "'a list \<Rightarrow> 'a \<Rightarrow> int" where
  "indexOf [] v = - 1"
| "indexOf (x # xs) v =
     (if x = v then 0 else (let i = indexOf xs v in if i < 0 then - 1 else i + 1))"

definition first_occurrences :: "'a list \<Rightarrow> 'a list" where
  "first_occurrences a = map snd (filter (\<lambda>(i, v). indexOf a v = int i) (enumerate 0 a))"

text \<open>Line 134.\<close>

definition toFetch :: "string list \<Rightarrow> string list" where
  "toFetch filesFound =
     first_occurrences (priority @ filter (\<lambda>p. p \<notin> set priority) filesFound)"

text \<open>
  An assignment \<open>o[k] = v\<close> to an object held as the list of its properties: a new key
  goes to the end, an old one keeps its place. (JavaScript enumerates keys that are array
  indices first; no path that is fetched is a run of digits.)
\<close>

fun obj_set :: "('k \<times> 'v) list \<Rightarrow> 'k \<Rightarrow> 'v \<Rightarrow> ('k \<times> 'v) list" where
  "obj_set [] k v = [(k, v)]"
| "obj_set ((k', v') # kvs) k v =
     (if k' = k then (k, v) # kvs else (k', v') # obj_set kvs k v)"

text \<open>
  Lines 136 to 139: the loop over the paths to fetch. The state is \<open>fileContents\<close> and the
  list of the paths for which \<open>getContent\<close> has been called.
\<close>

fun fetch_all ::
  "octokit \<Rightarrow> string list \<Rightarrow> (string \<times> string) list \<times> string list
     \<Rightarrow> (string \<times> string) list \<times> string list" where
  "fetch_all oct [] st = st"
| "fetch_all oct (p # ps) (fileContents, called) =
     fetch_all oct ps
       (case present (safeGetFile oct p) of
          Some txt \<Rightarrow> (obj_set fileContents p (shortSnippet txt 2000), called @ [p])
        | None \<Rightarrow> (fileContents, called @ [p]))"

subsection \<open>The detected facts (lines 141 to 257)\<close>

text \<open>
  The result of the analysis, without \<open>primaryLanguages\<close>, \<open>extCounts\<close>, \<open>envVars\<close> and
  \<open>assumptions\<close>: no other field is computed from them. \<open>null\<close> is \<open>None\<close>. An entry point
  and a command are JSON values, because the scripts of a \<open>package.json\<close> go into them as
  parsed; a string of the source is a \<open>JStr\<close>.
\<close>

record docker_info =
  cmd :: "string option"
  docker_entrypoint :: "string option"
  exposedPorts :: "string list"

record 'n detected =
  projectType :: "string option"
  entrypoint :: "'n json option"
  runCommands :: "'n json list"
  testCommands :: "'n json list"
  packageManager :: "string option"
  hasDocker :: bool
  dockerInfo :: "docker_info option"
  hasCI :: bool
  ciFiles :: "string list"
  hasTests :: bool
  readme :: "string option"
  license :: "string option"

record 'n analysis =
  repo :: string
  ref :: string
  filesFound :: "string list"
  detected :: "'n detected"
  snippets :: "(string \<times> string) list"

datatype rejection = RequestFailed

text \<open>\<open>fileContents[k]\<close> in a condition, and \<open>a || 'literal'\<close> on a string or \<open>null\<close>.\<close>

definition fetched :: "(string \<times> string) list \<Rightarrow> string \<Rightarrow> bool" where
  "fetched fileContents k = (case present (map_of fileContents k) of None \<Rightarrow> False | Some t \<Rightarrow> True)"

definition str_or :: "string option \<Rightarrow> string \<Rightarrow> string option" where
  "str_or a b = (case present a of Some v \<Rightarrow> Some v | None \<Rightarrow> Some b)"

text \<open>
  Lines 168 to 185. \<open>JSON.parse\<close> may throw, and so does \<open>pj.scripts\<close> when the text is
  \<open>null\<close>, and the template literal of line 180 when \<open>pj.main\<close> has no conversion to a
  string; the \<open>catch\<close> keeps what was assigned before and the rest of the block is not
  run. In line 180 the template literal is the right operand of \<open>||\<close>: it is evaluated only
  when no entry point was found before. \<open>named\<close> is line 181.
\<close>

definition package_json ::
  "'n node \<Rightarrow> (string \<times> string) list \<Rightarrow> 'n detected \<Rightarrow> 'n detected" where
  "package_json rt fileContents d =
     (case present (map_of fileContents ''package.json'') of
        None \<Rightarrow> d
      | Some txt \<Rightarrow>
          (case JSON_parse rt txt of
             None \<Rightarrow> d
           | Some pj \<Rightarrow>
               (let d1 = d\<lparr>packageManager := Some ''npm|yarn''\<rparr>
                in if pj = JNull then d1
                   else
                     (let scripts = get_prop pj ''scripts'';
                          start = opt_chain scripts ''start'';
                          test = opt_chain scripts ''test'';
                          main = get_prop pj ''main'';
                          d2 = d1\<lparr>runCommands := runCommands d1 @
                                 (case scripts of
                                    Some v \<Rightarrow> if js_truthy rt v then Object_values v else []
                                  | None \<Rightarrow> [])\<rparr>;
                          d3 = (if truthy rt scripts \<and> truthy rt start
                                then d2\<lparr>entrypoint := start\<rparr> else d2);
                          d4 = (case test of
                                  Some v \<Rightarrow>
                                    if truthy rt scripts \<and> js_truthy rt v
                                    then d3\<lparr>testCommands := testCommands d3 @ [v], hasTests := True\<rparr>
                                    else d3
                                | None \<Rightarrow> d3);
                          named = (\<lambda>d'. if truthy rt (get_prop pj ''name'')
                                        then d'\<lparr>projectType := str_or (projectType d') ''node-project''\<rparr>
                                        else d')
                      in case main of
                           Some v \<Rightarrow>
                             if js_truthy rt v then
                               (if truthy rt (entrypoint d4) then named d4
                                else
                                  (case js_toString rt v of
                                     Inl e \<Rightarrow> d4
                                   | Inr s \<Rightarrow> named (d4\<lparr>entrypoint := Some (JStr (''node '' @ s))\<rparr>)))
                             else named d4
                         | None \<Rightarrow> named d4))))"

text \<open>Lines 188 to 199.\<close>

definition python :: "(string \<times> string) list \<Rightarrow> 'n detected \<Rightarrow> 'n detected" where
  "python fileContents d =
     (if fetched fileContents ''requirements.txt'' \<or> fetched fileContents ''pyproject.toml''
         \<or> fetched fileContents ''Pipfile'' \<or> fetched fileContents ''setup.py''
      then
        (let d1 = d\<lparr>packageManager := str_or (packageManager d) ''pip/poetry/pipenv''\<rparr>;
             d2 = (case present (map_of fileContents ''pyproject.toml'') of
                     Some txt \<Rightarrow>
                       if js_includes txt ''[tool.pytest]''
                       then d1\<lparr>hasTests := True, testCommands := testCommands d1 @ [JStr ''pytest'']\<rparr>
                       else d1
                   | None \<Rightarrow> d1)
         in d2\<lparr>projectType := str_or (projectType d2) ''python-project''\<rparr>)
      else d)"

text \<open>Lines 204 to 213: \<open>dock\<close>.\<close>

definition dock_of :: "(string \<times> string) list \<Rightarrow> docker_info" where
  "dock_of fileContents =
     (case present (map_of fileContents ''Dockerfile'') of
        None \<Rightarrow> \<lparr>cmd = None, docker_entrypoint = None, exposedPorts = []\<rparr>
      | Some df \<Rightarrow>
          \<lparr>cmd = map_option trim (regex_exec (keyword_line ''CMD'') df),
           docker_entrypoint = map_option trim (regex_exec (keyword_line ''ENTRYPOINT'') df),
           exposedPorts = exposed df\<rparr>)"

text \<open>Lines 202 to 217.\<close>

definition docker :: "'n node \<Rightarrow> (string \<times> string) list \<Rightarrow> 'n detected \<Rightarrow> 'n detected" where
  "docker rt fileContents d =
     (if fetched fileContents ''Dockerfile'' \<or> fetched fileContents ''docker-compose.yml''
      then
        (let dock = dock_of fileContents;
             d1 = d\<lparr>hasDocker := True, dockerInfo := Some dock\<rparr>;
             d2 = (case present (cmd dock) of
                     Some c \<Rightarrow> if truthy rt (entrypoint d1) then d1 else d1\<lparr>entrypoint := Some (JStr c)\<rparr>
                   | None \<Rightarrow> d1)
         in d2\<lparr>projectType := str_or (projectType d2) ''dockerized-app''\<rparr>)
      else d)"

text \<open>Lines 220 to 224.\<close>

definition ci :: "(string \<times> string) list \<Rightarrow> 'n detected \<Rightarrow> 'n detected" where
  "ci fileContents d =
     (let found = filter (\<lambda>p. startsWith p CI_PATH_PREFIX) (map fst fileContents)
      in if found = [] then d else d\<lparr>hasCI := True, ciFiles := found\<rparr>)"

text \<open>
  Lines 227 to 230. \<open>find\<close> gives the first key of \<open>fileContents\<close> that matches;
  \<open>shortSnippet\<close> of a missing text is the empty string.
\<close>

definition readme_license :: "(string \<times> string) list \<Rightarrow> 'n detected \<Rightarrow> 'n detected" where
  "readme_license fileContents d =
     (let d1 = (case present (find (regex_test_ci ''readme'') (map fst fileContents)) of
                  Some readmePath \<Rightarrow>
                    d\<lparr>readme := Some (case map_of fileContents readmePath of
                                       Some t \<Rightarrow> shortSnippet t 1500
                                     | None \<Rightarrow> [])\<rparr>
                | None \<Rightarrow> d)
      in case present (find (regex_test_ci ''license'') (map fst fileContents)) of
           Some licensePath \<Rightarrow> d1\<lparr>license := Some licensePath\<rparr>
         | None \<Rightarrow> d1)"

text \<open>Lines 233 to 239.\<close>

definition tests :: "tree_entry list \<Rightarrow> 'n detected \<Rightarrow> 'n detected" where
  "tests tree d =
     (if hasTests d then d
      else if list_ex (\<lambda>t. test_folder (path t)) tree
      then d\<lparr>hasTests := True,
             testCommands := testCommands d @
               [JStr (case present (packageManager d) of
                        Some pm \<Rightarrow> if js_includes pm ''npm'' then ''npm test'' else ''pytest''
                      | None \<Rightarrow> ''pytest'')]\<rparr>
      else d)"

text \<open>Lines 247 to 257.\<close>

definition run_fallback :: "'n detected \<Rightarrow> 'n detected" where
  "run_fallback d =
     (if runCommands d = [] then
        d\<lparr>runCommands :=
            [JStr (case present (packageManager d) of
                     Some pm \<Rightarrow>
                       if js_includes pm ''npm'' then ''npm install && npm start''
                       else if js_includes pm ''pip'' then ''pip install -r requirements.txt && python main.py''
                       else if hasDocker d then ''docker build -t myapp . && docker run -p 3000:3000 myapp''
                       else ''Check project files for run instructions''
                   | None \<Rightarrow>
                       if hasDocker d then ''docker build -t myapp . && docker run -p 3000:3000 myapp''
                       else ''Check project files for run instructions'')]\<rparr>
      else d)"

text \<open>Lines 148 to 163: the facts before any rule has run.\<close>

definition nothing_detected :: "'n detected" where
  "nothing_detected =
     \<lparr>projectType = None, entrypoint = None, runCommands = [], testCommands = [],
      packageManager = None, hasDocker = False, dockerInfo = None, hasCI = False,
      ciFiles = [], hasTests = False, readme = None, license = None\<rparr>"

text \<open>Lines 141 to 257: the rules, in the order of the source.\<close>

definition detect ::
  "'n node \<Rightarrow> tree_entry list \<Rightarrow> (string \<times> string) list \<Rightarrow> 'n detected" where
  "detect rt tree fileContents =
     run_fallback
       (tests tree
          (readme_license fileContents
             (ci fileContents
                (docker rt fileContents
                   (python fileContents
                      (package_json rt fileContents nothing_detected))))))"

text \<open>
  \<open>analyzeRepo\<close>: the paths for which \<open>getContent\<close> was called, in order, and the analysis,
  or the rejection when the tree could not be had.
\<close>

definition analyzeRepo ::
  "'n node \<Rightarrow> octokit \<Rightarrow> string \<Rightarrow> string \<Rightarrow> string
     \<Rightarrow> string list \<times> (rejection + 'n analysis)" where
  "analyzeRepo rt oct owner repo' ref' =
     (case getTree oct of
        None \<Rightarrow> ([], Inl RequestFailed)
      | Some tree \<Rightarrow>
          (let found = workflow_files tree (interesting_files tree []);
               (fileContents, called) = fetch_all oct (take 40 (toFetch found)) ([], [])
           in (called,
               Inr \<lparr>repo = owner @ ''/'' @ repo', ref = ref', filesFound = found,
                    detected = detect rt tree fileContents, snippets = fileContents\<rparr>)))"

section \<open>Auxiliary definitions for the statements\<close>

text \<open>
  The answer to a request whose signature does not verify, and what an observer of the
  handler's operations sees of an effect: which operation it is and the sizes of its
  arguments, not their contents.
\<close>

definition invalid_signature :: "'n response" where
  "invalid_signature = \<lparr>status = 401, sent = ''Invalid signature'', received = None\<rparr>"



text \<open>The answer to a request that the handler accepts.\<close>

definition ok_response :: "'n node \<Rightarrow> request \<Rightarrow> 'n response" where
  "ok_response rt req =
     \<lparr>status = 200, sent = ''ok'',
      received = Some (header_or (x_github_event req) ''unknown'',
                       header_or (x_github_delivery req) [],
                       fst (parse_payload rt (body req)))\<rparr>"

text \<open>
  The answer of the handler's \<open>catch\<close>, and whether a line about the payload of a request
  throws (lines 149, 154 and 156). \<open>answered\<close> is the answer to a request whose signature
  is accepted or not asked for.
\<close>

definition server_error :: "'n response" where
  "server_error = \<lparr>status = 500, sent = ''server error'', received = None\<rparr>"

definition log_throws :: "'n node \<Rightarrow> request \<Rightarrow> bool" where
  "log_throws rt req =
     (case snd (payload_log rt (header_or (x_github_event req) ''unknown'')
                  (fst (parse_payload rt (body req)))) of
        Some e \<Rightarrow> True
      | None \<Rightarrow> False)"

definition answered :: "'n node \<Rightarrow> request \<Rightarrow> 'n response" where
  "answered rt req = (if log_throws rt req then server_error else ok_response rt req)"


definition computed_signature :: "'n node \<Rightarrow> config \<Rightarrow> string \<Rightarrow> byte list \<Rightarrow> string" where
  "computed_signature rt cfg alg b =
     alg @ ''='' @ (if alg = ''sha256'' then hex (hmac_sha256 rt (WEBHOOK_SECRET cfg) b)
                   else hex (hmac_sha1 rt (WEBHOOK_SECRET cfg) b))"

text \<open>
  Whether a request with the body \<open>b\<close> passes verification (lines 100 to 133): verification
  is skipped, or the secret is not empty and the header that the handler verifies is the
  signature it computes.
\<close>

definition verification_passes :: "'n node \<Rightarrow> config \<Rightarrow> request \<Rightarrow> byte list \<Rightarrow> bool" where
  "verification_passes rt cfg req b =
     (if SKIP_WEBHOOK_VERIFY cfg then True
      else if WEBHOOK_SECRET cfg = [] then False
      else (case present (x_hub_signature_256 req) of
              Some h \<Rightarrow> h = computed_signature rt cfg ''sha256'' b
            | None \<Rightarrow>
                (case present (x_hub_signature req) of
                   Some h \<Rightarrow> h = computed_signature rt cfg ''sha1'' b
                 | None \<Rightarrow> False)))"

text \<open>
  Requests and configurations for the examples: verification on or skipped, with the secret
  \<open>s3cret\<close>; a push event with an empty body and the given signature headers; and a
  header of 70 characters whose last one is the Latin-1 letter 233, two bytes in UTF-8.
\<close>

definition verifying :: config where
  "verifying = \<lparr>WEBHOOK_SECRET = ''s3cret'', SKIP_WEBHOOK_VERIFY = False\<rparr>"

definition signed_request :: "string option \<Rightarrow> string option \<Rightarrow> request" where
  "signed_request sig256 sig1 =
     \<lparr>body = Some [], x_hub_signature_256 = sig256, x_hub_signature = sig1,
      x_github_event = Some ''push'', x_github_delivery = None\<rparr>"


definition debugging :: config where
  "debugging = \<lparr>WEBHOOK_SECRET = ''s3cret'', SKIP_WEBHOOK_VERIFY = True\<rparr>"

text \<open>The elements of a list that are not in \<open>S\<close>, each at its first occurrence.\<close>

fun keep :: "'a set \<Rightarrow> 'a list \<Rightarrow> 'a list" where
  "keep S [] = []"
| "keep S (x # xs) = (if x \<in> S then keep S xs else x # keep (insert x S) xs)"

text \<open>
  A runtime for the examples: its keyed hashes give the zero digest, and its \<open>JSON.parse\<close>
  rejects every text, as Node does for the texts the examples give it (the empty text is
  not JSON). An example that needs a valid signature signs with this digest.
\<close>

definition plain_runtime :: "nat node" where
  "plain_runtime =
     \<lparr>hmac_sha256 = (\<lambda>key data. 0), hmac_sha1 = (\<lambda>key data. 0),
      Buffer_toString = (\<lambda>buf. []), JSON_parse = (\<lambda>text. None),
      Number_truthy = (\<lambda>n. n \<noteq> 0), Number_toString = (\<lambda>n. [])\<rparr>"

text \<open>
  A runtime that reads every body as a push whose \<open>ref\<close> is an object with a property
  \<open>toString\<close>, as Node reads the text \<open>{"ref":{"toString":1}}\<close>.
\<close>

definition unprintable_runtime :: "nat node" where
  "unprintable_runtime =
     plain_runtime\<lparr>JSON_parse :=
       (\<lambda>text. Some (JObj [(''ref'', JObj [(''toString'', JNum 1)])]))\<rparr>"

text \<open>
  Repositories for the examples: a tree and the files the API serves (every other path
  fails); the facts an analysis detected; and texts of a \<open>Dockerfile\<close> and of a
  \<open>package.json\<close>, with a runtime whose \<open>JSON.parse\<close> reads these two manifests as Node
  does and rejects every other text.
\<close>

definition blob :: "string \<Rightarrow> tree_entry" where
  "blob p = \<lparr>path = p, type = ''blob''\<rparr>"

definition repository :: "tree_entry list \<Rightarrow> (string \<times> string) list \<Rightarrow> octokit" where
  "repository tree files =
     \<lparr>getTree = Some tree,
      getContent = (\<lambda>p. case map_of files p of Some t \<Rightarrow> Blob t | None \<Rightarrow> Rejected)\<rparr>"

definition facts_of :: "string list \<times> (rejection + 'n analysis) \<Rightarrow> 'n detected option" where
  "facts_of r = (case snd r of Inl e \<Rightarrow> None | Inr a \<Rightarrow> Some (detected a))"




definition empty_scripts :: string where
  \<open>empty_scripts = ''{"scripts":{"start":"","test":""},"main":"lib.js"}''\<close>

definition both_scripts :: string where
  \<open>both_scripts = ''{"scripts":{"start":"node index.js","test":"jest"},"main":"lib.js"}''\<close>

definition manifest_runtime :: "nat node" where
  "manifest_runtime =
     plain_runtime\<lparr>JSON_parse :=
       (\<lambda>text.
          if text = empty_scripts then
            Some (JObj [(''scripts'', JObj [(''start'', JStr []), (''test'', JStr [])]),
                        (''main'', JStr ''lib.js'')])
          else if text = both_scripts then
            Some (JObj [(''scripts'', JObj [(''start'', JStr ''node index.js''), (''test'', JStr ''jest'')]),
                        (''main'', JStr ''lib.js'')])
          else None)\<rparr>"

text \<open>
  A manifest of 2068 characters, with a runtime whose \<open>JSON.parse\<close> reads it as Node does
  and rejects every other text (the snippet of the manifest, cut inside a string, is not
  JSON).
\<close>

definition long_manifest :: string where
  \<open>long_manifest =
     ''{"scripts":{"start":"node index.js","test":"jest"},"description":"''
       @ replicate 2000 (CHR ''x'') @ ''"}''\<close>

definition long_runtime :: "nat node" where
  "long_runtime =
     plain_runtime\<lparr>JSON_parse :=
       (\<lambda>text.
          if text = long_manifest then
            Some (JObj [(''scripts'', JObj [(''start'', JStr ''node index.js''), (''test'', JStr ''jest'')]),
                        (''description'', JStr (replicate 2000 (CHR ''x'')))])
          else None)\<rparr>"

text \<open>A repository with a readme and a licence file.\<close>

definition licensed_tree :: "tree_entry list" where
  "licensed_tree = [blob ''README.md'', blob ''LICENSE'']"

definition licensed_files :: "(string \<times> string) list" where
  "licensed_files = [(''README.md'', ''# Hello''), (''LICENSE'', ''MIT License'')]"

section \<open>The webhook handler: properties\<close>

text \<open>
  C1. With verification on (\<open>SKIP_WEBHOOK_VERIFY\<close> false) and no secret configured, the
  handler answers every request, whatever its body and headers, with status 500 and the
  text \<open>Webhook secret not configured on server\<close>; it prints its two warnings, makes no
  call into \<open>crypto\<close> and never reaches the code that accepts a request.
\<close>

theorem webhook_no_secret_rejects:
  "webhook rt \<lparr>WEBHOOK_SECRET = [], SKIP_WEBHOOK_VERIFY = False\<rparr> req =
     ([Console ''WEBHOOK_SECRET is not set. Set WEBHOOK_SECRET in .env for verification.'' [],
       Console ''Rejecting webhook because WEBHOOK_SECRET is missing.'' []],
      \<lparr>status = 500, sent = ''Webhook secret not configured on server'', received = None\<rparr>)"
  by (simp add: webhook_def webhook_try_def)


subsection \<open>Buffers and digests\<close>

text \<open>\<open>Buffer.from\<close> is injective: two strings with the same bytes are the same string.\<close>

lemma byte_of_nat_inj: "m < 256 \<Longrightarrow> n < 256 \<Longrightarrow> (of_nat m :: byte) = of_nat n \<longleftrightarrow> m = n"
  by (simp add: word_of_nat_eq_iff take_bit_nat_eq_self)

lemma utf8_unit_eq_iff:
  "utf8_unit c @ xs = utf8_unit d @ ys \<longleftrightarrow> c = d \<and> xs = ys"
proof -
  let ?n = "of_char c :: nat" and ?m = "of_char d :: nat"
  have n: "?n < 256" and m: "?m < 256" by simp_all
  have "?n div 64 \<le> ?n" "?m div 64 \<le> ?m"
    by (rule div_le_dividend)+
  with n m have hi: "192 + ?n div 64 < 256" "192 + ?m div 64 < 256"
    by linarith+
  have lo: "128 + ?n mod 64 < 256" "128 + ?m mod 64 < 256"
    by simp_all
  have eq: "c = d \<longleftrightarrow> ?n = ?m" by simp
  have split: "?n = ?m \<longleftrightarrow> ?n div 64 = ?m div 64 \<and> ?n mod 64 = ?m mod 64"
    by (metis div_mult_mod_eq)
  note inj = byte_of_nat_inj [OF n m] byte_of_nat_inj [OF n hi(2)] byte_of_nat_inj [OF hi(1) m]
    byte_of_nat_inj [OF hi(1) hi(2)] byte_of_nat_inj [OF lo(1) lo(2)]
  show ?thesis
  proof (cases "?n < 128"; cases "?m < 128")
    assume a: "?n < 128" "?m < 128"
    have "utf8_unit c @ xs = utf8_unit d @ ys \<longleftrightarrow> ?n = ?m \<and> xs = ys"
      unfolding utf8_unit_def Let_def using a
      by (simp only: if_True append_Cons append_Nil list.inject inj)
    then show ?thesis using eq by blast
  next
    assume a: "?n < 128" "\<not> ?m < 128"
    then have ne: "?n \<noteq> 192 + ?m div 64" "c \<noteq> d" by auto
    have "utf8_unit c @ xs = utf8_unit d @ ys \<longleftrightarrow>
            ?n = 192 + ?m div 64 \<and> xs = of_nat (128 + ?m mod 64) # ys"
      unfolding utf8_unit_def Let_def using a
      by (simp only: if_True if_False append_Cons append_Nil list.inject inj)
    then show ?thesis using ne by blast
  next
    assume a: "\<not> ?n < 128" "?m < 128"
    then have ne: "192 + ?n div 64 \<noteq> ?m" "c \<noteq> d" by auto
    have "utf8_unit c @ xs = utf8_unit d @ ys \<longleftrightarrow>
            192 + ?n div 64 = ?m \<and> of_nat (128 + ?n mod 64) # xs = ys"
      unfolding utf8_unit_def Let_def using a
      by (simp only: if_True if_False append_Cons append_Nil list.inject inj)
    then show ?thesis using ne by blast
  next
    assume a: "\<not> ?n < 128" "\<not> ?m < 128"
    have "utf8_unit c @ xs = utf8_unit d @ ys \<longleftrightarrow>
            192 + ?n div 64 = 192 + ?m div 64 \<and> 128 + ?n mod 64 = 128 + ?m mod 64 \<and> xs = ys"
      unfolding utf8_unit_def Let_def using a
      by (simp only: if_False append_Cons append_Nil list.inject inj)
    then show ?thesis using eq split by auto
  qed
qed

lemma Buffer_from_Nil_iff: "Buffer_from s = [] \<longleftrightarrow> s = []"
  by (cases s) (auto simp: Buffer_from_def utf8_unit_def Let_def)

lemma Buffer_from_inj: "Buffer_from a = Buffer_from b \<longleftrightarrow> a = b"
proof (induction a arbitrary: b)
  case Nil
  then show ?case using Buffer_from_Nil_iff [of b] by (auto simp: Buffer_from_def)
next
  case (Cons c cs)
  show ?case
  proof (cases b)
    case Nil
    then show ?thesis using Buffer_from_Nil_iff [of "c # cs"] by (auto simp: Buffer_from_def)
  next
    case (Cons d ds)
    have "Buffer_from (c # cs) = Buffer_from (d # ds) \<longleftrightarrow> c = d \<and> Buffer_from cs = Buffer_from ds"
      using utf8_unit_eq_iff [of c "Buffer_from cs" d "Buffer_from ds"]
      by (simp add: Buffer_from_def)
    with Cons Cons.IH show ?thesis by simp
  qed
qed




lemma length_hex: "length (hex (w :: 'a::len word)) = LENGTH('a) div 4"
  by (simp add: hex_def)




subsection \<open>The paths through the handler\<close>

lemma payload_log_prints: "e \<in> set (fst (payload_log rt ev p)) \<Longrightarrow> \<exists>msg vs. e = Console msg vs"
  by (auto simp: payload_log_def Let_def case_prod_beta
      split: if_splits sum.splits option.splits)

lemma accept_prints: "e \<in> set (fst (accept rt req)) \<Longrightarrow> \<exists>msg vs. e = Console msg vs"
  using payload_log_prints [of e rt]
  by (auto simp: accept_def case_prod_beta Let_def parse_payload_def split: option.splits)

lemma check_scheme_buffer:
  assumes "body req = Some b"
  shows "check_scheme rt req alg mac h =
     (let computed = alg @ ''='' @ mac b in
      if length (Buffer_from h) \<noteq> length (Buffer_from computed) then
        ([CreateHmac alg,
          Console (''Invalid webhook signature ('' @ alg @ '').'') [Some (JStr h), Some (JStr computed)]],
         Inr invalid_signature)
      else if h \<noteq> computed then
        ([CreateHmac alg, TimingSafeEqual (Buffer_from h) (Buffer_from computed),
          Console (''Invalid webhook signature ('' @ alg @ '').'') [Some (JStr h), Some (JStr computed)]],
         Inr invalid_signature)
      else
        (CreateHmac alg # TimingSafeEqual (Buffer_from h) (Buffer_from computed) # fst (accept rt req),
         snd (accept rt req)))"
  using assms
  by (simp add: check_scheme_def signature_mismatch_def timingSafeEqual_def Let_def
      invalid_signature_def Buffer_from_inj case_prod_beta)

lemma webhook_verifying:
  assumes "WEBHOOK_SECRET cfg \<noteq> []" "\<not> SKIP_WEBHOOK_VERIFY cfg"
  shows "webhook_try rt cfg req =
     (case present (x_hub_signature_256 req) of
        Some h \<Rightarrow> check_scheme rt req ''sha256'' (\<lambda>b. hex (hmac_sha256 rt (WEBHOOK_SECRET cfg) b)) h
      | None \<Rightarrow>
          (case present (x_hub_signature req) of
             Some h \<Rightarrow> check_scheme rt req ''sha1'' (\<lambda>b. hex (hmac_sha1 rt (WEBHOOK_SECRET cfg) b)) h
           | None \<Rightarrow>
               ([Console ''No signature header present on webhook request'' []],
                Inr \<lparr>status = 401, sent = ''Missing signature header'', received = None\<rparr>)))"
  using assms by (simp add: webhook_try_def Let_def split: option.splits)


lemma no_hmac_in_accept: "CreateHmac alg \<notin> set (fst (accept rt req))"
  using accept_prints by blast

text \<open>
  The code that accepts a request: it answers 200, unless a line about the payload throws,
  which the handler's \<open>catch\<close> turns into a 500.
\<close>

lemma accept_outcome:
  "(case snd (accept rt req) of Inl e \<Rightarrow> server_error | Inr a \<Rightarrow> a) = answered rt req"
  "(case snd (accept rt req) of Inl e \<Rightarrow> [Console ''Webhook handler error'' []] | Inr a \<Rightarrow> [])
     = (if log_throws rt req then [Console ''Webhook handler error'' []] else [])"
  by (simp_all add: accept_def answered_def log_throws_def ok_response_def case_prod_beta Let_def
      split: option.splits)

lemma answered_status:
  "status (answered rt req) = (if log_throws rt req then 500 else 200)"
  "sent (answered rt req) = (if log_throws rt req then ''server error'' else ''ok'')"
  by (simp_all add: answered_def server_error_def ok_response_def)

lemma webhook_outcome:
  "webhook rt cfg req =
     (fst (webhook_try rt cfg req) @
      (case snd (webhook_try rt cfg req) of Inl e \<Rightarrow> [Console ''Webhook handler error'' []] | Inr a \<Rightarrow> []),
      (case snd (webhook_try rt cfg req) of Inl e \<Rightarrow> server_error | Inr a \<Rightarrow> a))"
  by (simp add: webhook_def server_error_def split: prod.splits sum.splits)


lemma check_scheme_outcome:
  "snd (check_scheme rt req alg mac h) =
     (case body req of
        None \<Rightarrow> Inl TypeError
      | Some b \<Rightarrow> if h = alg @ ''='' @ mac b then snd (accept rt req) else Inr invalid_signature)"
proof (cases "body req")
  case None
  then show ?thesis by (simp add: check_scheme_def)
next
  case (Some b)
  then show ?thesis by (simp add: check_scheme_buffer Let_def)
qed

lemma accept_warns: "set (snd (parse_payload rt (body req))) \<subseteq> set (fst (accept rt req))"
  by (auto simp: accept_def case_prod_beta Let_def)

lemma check_scheme_accepting:
  assumes "snd (check_scheme rt req alg mac h) = Inr a" "status a = 200"
  shows "set (snd (parse_payload rt (body req))) \<subseteq> set (fst (check_scheme rt req alg mac h))"
proof (cases "body req")
  case None
  with assms show ?thesis by (simp add: check_scheme_def)
next
  case (Some b)
  with assms show ?thesis
    using accept_warns [of rt req]
    by (auto simp: check_scheme_buffer Let_def invalid_signature_def split: if_splits)
qed

text \<open>The answer of the handler, path by path.\<close>

lemma webhook_response:
  "snd (webhook rt cfg req) =
     (if SKIP_WEBHOOK_VERIFY cfg then answered rt req
      else if WEBHOOK_SECRET cfg = [] then
        \<lparr>status = 500, sent = ''Webhook secret not configured on server'', received = None\<rparr>
      else
        (case present (x_hub_signature_256 req) of
           Some h \<Rightarrow>
             (case body req of
                None \<Rightarrow> server_error
              | Some b \<Rightarrow>
                  if h = ''sha256='' @ hex (hmac_sha256 rt (WEBHOOK_SECRET cfg) b)
                  then answered rt req else invalid_signature)
         | None \<Rightarrow>
             (case present (x_hub_signature req) of
                Some h \<Rightarrow>
                  (case body req of
                     None \<Rightarrow> server_error
                   | Some b \<Rightarrow>
                       if h = ''sha1='' @ hex (hmac_sha1 rt (WEBHOOK_SECRET cfg) b)
                       then answered rt req else invalid_signature)
              | None \<Rightarrow> \<lparr>status = 401, sent = ''Missing signature header'', received = None\<rparr>)))"
proof (cases "SKIP_WEBHOOK_VERIFY cfg")
  case True
  then have "snd (webhook_try rt cfg req) = snd (accept rt req)"
    by (simp add: webhook_try_def Let_def case_prod_beta)
  with True show ?thesis
    by (simp add: webhook_outcome accept_outcome)
next
  case False
  show ?thesis
  proof (cases "WEBHOOK_SECRET cfg = []")
    case True
    with False show ?thesis by (simp add: webhook_def webhook_try_def)
  next
    case secret: False
    show ?thesis
      using False secret
      by (simp add: webhook_outcome webhook_verifying check_scheme_outcome accept_outcome
          split: option.splits)
  qed
qed



lemma accept_ignores_sha1: "accept rt (req\<lparr>x_hub_signature := other\<rparr>) = accept rt req"
  by (simp add: accept_def)

lemma check_scheme_ignores_sha1:
  "check_scheme rt (req\<lparr>x_hub_signature := other\<rparr>) alg mac h = check_scheme rt req alg mac h"
  by (simp add: check_scheme_def accept_ignores_sha1 Let_def case_prod_beta
      split: option.splits sum.splits bool.splits)

lemma check_scheme_hashes:
  "CreateHmac other \<in> set (fst (check_scheme rt req alg mac h)) \<Longrightarrow> other = alg"
proof (cases "body req")
  case None
  assume "CreateHmac other \<in> set (fst (check_scheme rt req alg mac h))"
  with None show ?thesis by (simp add: check_scheme_def)
next
  case (Some b)
  assume "CreateHmac other \<in> set (fst (check_scheme rt req alg mac h))"
  with Some show ?thesis
    using no_hmac_in_accept [of other rt req]
    by (auto simp: check_scheme_buffer Let_def split: if_splits)
qed

lemma webhook_effects:
  "fst (webhook rt cfg req) =
     fst (webhook_try rt cfg req) @
     (case snd (webhook_try rt cfg req) of Inl e \<Rightarrow> [Console ''Webhook handler error'' []] | Inr a \<Rightarrow> [])"
  by (simp add: webhook_def split: prod.splits sum.splits)

lemma sha1_only_without_sha256:
  assumes "CreateHmac ''sha1'' \<in> set (fst (webhook rt cfg req))"
  shows "present (x_hub_signature_256 req) = None"
proof (rule ccontr)
  assume "present (x_hub_signature_256 req) \<noteq> None"
  then obtain h where h: "present (x_hub_signature_256 req) = Some h" by auto
  have in_try: "CreateHmac ''sha1'' \<in> set (fst (webhook_try rt cfg req))"
    using assms by (auto simp: webhook_effects split: sum.splits)
  show False
  proof (cases "\<not> SKIP_WEBHOOK_VERIFY cfg \<and> WEBHOOK_SECRET cfg \<noteq> []")
    case True
    with in_try h have "CreateHmac ''sha1'' \<in> set (fst (check_scheme rt req ''sha256''
        (\<lambda>b. hex (hmac_sha256 rt (WEBHOOK_SECRET cfg) b)) h))"
      by (simp add: webhook_verifying)
    from check_scheme_hashes [OF this] show False by simp
  next
    case False
    with in_try show False
      using no_hmac_in_accept [of "''sha1''" rt req]
      by (auto simp: webhook_try_def Let_def case_prod_beta split: if_splits)
  qed
qed

lemma not_hex: "length s \<noteq> LENGTH('a::len) div 4 \<Longrightarrow> s \<noteq> hex (w :: 'a word)"
  using length_hex [of w] by auto

text \<open>
  A body that does not parse leaves \<open>payload\<close> the empty object, and no line about the
  empty object throws: its fields are \<open>undefined\<close>, which a template literal prints.
\<close>

lemma payload_log_empty: "snd (payload_log rt ev (JObj [])) = None"
  by (simp add: payload_log_def ToString_def js_or_def truthy_def)

lemma unparsed_answered:
  assumes "body req = Some b" "JSON_parse rt (Buffer_toString rt b) = None"
  shows "parse_payload rt (body req) = (JObj [], [Console ''Failed to parse webhook JSON payload'' []])"
    and "\<not> log_throws rt req"
    and "answered rt req =
           \<lparr>status = 200, sent = ''ok'',
            received = Some (header_or (x_github_event req) ''unknown'',
                             header_or (x_github_delivery req) [], JObj [])\<rparr>"
proof -
  show p: "parse_payload rt (body req) = (JObj [], [Console ''Failed to parse webhook JSON payload'' []])"
    using assms by (simp add: parse_payload_def)
  then show t: "\<not> log_throws rt req"
    by (simp add: log_throws_def payload_log_empty)
  from p t show "answered rt req =
           \<lparr>status = 200, sent = ''ok'',
            received = Some (header_or (x_github_event req) ''unknown'',
                             header_or (x_github_delivery req) [], JObj [])\<rparr>"
    by (simp add: answered_def ok_response_def)
qed

lemma webhook_accepted_effects:
  assumes "status (snd (webhook rt cfg req)) = 200"
  shows "set (snd (parse_payload rt (body req))) \<subseteq> set (fst (webhook rt cfg req))"
proof (cases "SKIP_WEBHOOK_VERIFY cfg")
  case True
  then have "fst (webhook_try rt cfg req) =
      (if WEBHOOK_SECRET cfg = [] then
         [Console ''WEBHOOK_SECRET is not set. Set WEBHOOK_SECRET in .env for verification.'' []]
       else []) @
      Console ''DEBUG_WEBHOOK_NO_VERIFY is true - skipping signature verification (dev only)'' []
      # fst (accept rt req)"
    by (simp add: webhook_try_def Let_def case_prod_beta)
  then show ?thesis
    using accept_warns [of rt req] by (auto simp: webhook_effects)
next
  case on: False
  show ?thesis
  proof (cases "WEBHOOK_SECRET cfg = []")
    case True
    with on assms show ?thesis by (simp add: webhook_response)
  next
    case secret: False
    obtain a where a: "snd (webhook_try rt cfg req) = Inr a" "status a = 200"
      using assms by (auto simp: webhook_def split: prod.splits sum.splits)
    have sub: "set (fst (webhook_try rt cfg req)) \<subseteq> set (fst (webhook rt cfg req))"
      by (simp add: webhook_effects)
    show ?thesis
    proof (cases "present (x_hub_signature_256 req)")
      case (Some h)
      then have t: "webhook_try rt cfg req =
          check_scheme rt req ''sha256'' (\<lambda>b. hex (hmac_sha256 rt (WEBHOOK_SECRET cfg) b)) h"
        by (simp add: webhook_verifying [OF secret on])
      from check_scheme_accepting [OF a(1) [unfolded t] a(2)] sub [unfolded t]
      show ?thesis by blast
    next
      case None
      show ?thesis
      proof (cases "present (x_hub_signature req)")
        case (Some h)
        with None have t: "webhook_try rt cfg req =
            check_scheme rt req ''sha1'' (\<lambda>b. hex (hmac_sha1 rt (WEBHOOK_SECRET cfg) b)) h"
          by (simp add: webhook_verifying [OF secret on])
        from check_scheme_accepting [OF a(1) [unfolded t] a(2)] sub [unfolded t]
        show ?thesis by blast
      next
        case none1: None
        with None a show ?thesis by (auto simp: webhook_verifying [OF secret on])
      qed
    qed
  qed
qed

subsection \<open>The length check and the comparison\<close>






subsection \<open>The preference for sha256\<close>

text \<open>
  C3, as the code has it. When verification is on, the secret is not empty and the sha256
  header is present and not empty, the outcome of the handler (what it prints, what it
  calls, what it answers) does not depend on the sha1 header, whatever it is. A request
  with a Buffer body is answered 401 \<open>Invalid signature\<close> exactly when the sha256 header is
  not \<open>sha256=\<close> followed by the hexadecimal HMAC-SHA256 of the body; when it is, the
  answer is that of the code that accepts a request: 200, or 500 \<open>server error\<close> when a
  line that this code prints about the payload throws. The sha1 hash is not computed. For
  any request at all, the sha1 hash is computed only if the sha256 header is absent or
  empty.
\<close>

theorem webhook_sha256_first:
  assumes secret: "WEBHOOK_SECRET cfg \<noteq> []" and on: "\<not> SKIP_WEBHOOK_VERIFY cfg"
    and h: "x_hub_signature_256 req = Some h" and nonempty: "h \<noteq> []"
  shows
    "webhook rt cfg (req\<lparr>x_hub_signature := other\<rparr>) = webhook rt cfg req \<and>
     (\<forall>b. body req = Some b \<longrightarrow>
        snd (webhook rt cfg req) =
          (if h \<noteq> ''sha256='' @ hex (hmac_sha256 rt (WEBHOOK_SECRET cfg) b) then invalid_signature
           else if log_throws rt req then server_error
           else ok_response rt req) \<and>
        (status (snd (webhook rt cfg req)) = 401)
          = (h \<noteq> ''sha256='' @ hex (hmac_sha256 rt (WEBHOOK_SECRET cfg) b))) \<and>
     CreateHmac ''sha1'' \<notin> set (fst (webhook rt cfg req)) \<and>
     (\<forall>cfg' req'. CreateHmac ''sha1'' \<in> set (fst (webhook rt cfg' req')) \<longrightarrow>
        present (x_hub_signature_256 req') = None)"
proof (intro conjI allI impI)
  have p: "present (x_hub_signature_256 req) = Some h"
    using h nonempty by simp
  have "webhook_try rt cfg (req\<lparr>x_hub_signature := other\<rparr>) = webhook_try rt cfg req"
    using p by (simp add: webhook_verifying [OF secret on] check_scheme_ignores_sha1)
  then show "webhook rt cfg (req\<lparr>x_hub_signature := other\<rparr>) = webhook rt cfg req"
    by (simp add: webhook_def)
  show "CreateHmac ''sha1'' \<notin> set (fst (webhook rt cfg req))"
    using sha1_only_without_sha256 [of rt cfg req] p by auto
  show "snd (webhook rt cfg req) =
          (if h \<noteq> ''sha256='' @ hex (hmac_sha256 rt (WEBHOOK_SECRET cfg) b) then invalid_signature
           else if log_throws rt req then server_error
           else ok_response rt req)" if "body req = Some b" for b
    using that p secret on by (simp add: webhook_response answered_def)
  show "(status (snd (webhook rt cfg req)) = 401)
          = (h \<noteq> ''sha256='' @ hex (hmac_sha256 rt (WEBHOOK_SECRET cfg) b))" if "body req = Some b" for b
    using that p secret on
    by (simp add: webhook_response answered_status invalid_signature_def)
  show "present (x_hub_signature_256 req') = None"
    if "CreateHmac ''sha1'' \<in> set (fst (webhook rt cfg' req'))" for cfg' req'
    using that by (rule sha1_only_without_sha256)
qed

text \<open>
  The instance of C3 for a request with both headers, the sha256 one wrong: the outcome
  is the same as without the sha1 header, a 401.
\<close>

theorem webhook_sha256_first_witness:
  "WEBHOOK_SECRET verifying \<noteq> [] \<and>
   webhook plain_runtime verifying (signed_request (Some ''sha256=abc'') (Some ''sha1=abc''))
     = webhook plain_runtime verifying (signed_request (Some ''sha256=abc'') None) \<and>
   snd (webhook plain_runtime verifying (signed_request (Some ''sha256=abc'') (Some ''sha1=abc'')))
     = invalid_signature"
proof -
  let ?req = "signed_request (Some ''sha256=abc'') None"
  have secret: "WEBHOOK_SECRET verifying \<noteq> []" and on: "\<not> SKIP_WEBHOOK_VERIFY verifying"
    by (simp_all add: verifying_def)
  have h: "x_hub_signature_256 ?req = Some ''sha256=abc''" and b: "body ?req = Some []"
    by (simp_all add: signed_request_def)
  have upd: "?req\<lparr>x_hub_signature := Some ''sha1=abc''\<rparr>
               = signed_request (Some ''sha256=abc'') (Some ''sha1=abc'')"
    by (simp add: signed_request_def)
  have "''abc'' \<noteq> hex (hmac_sha256 plain_runtime (WEBHOOK_SECRET verifying) [])"
    by (rule not_hex) simp
  then have ne: "''sha256=abc'' \<noteq> ''sha256='' @ hex (hmac_sha256 plain_runtime (WEBHOOK_SECRET verifying) [])"
    by simp
  from webhook_sha256_first [OF secret on h, of plain_runtime "Some ''sha1=abc''"] b ne upd secret
  show ?thesis by simp
qed


text \<open>
  C3 as stated fails for a sha256 header that is present with an empty value: \<open>if (sig256)\<close>
  is false for the empty string, so the handler falls back to the sha1 header. With the
  right sha1 signature the request is accepted, with a wrong one it is answered 401: the
  sha1 header decides, whatever the keyed hashes are. (The body of the request is empty,
  which is not JSON: \<open>JSON.parse\<close> throws on it.)
\<close>

theorem webhook_empty_sha256_falls_back:
  "\<forall>rt :: nat node.
     snd (webhook (rt\<lparr>JSON_parse := (\<lambda>text. None)\<rparr>) verifying
            (signed_request (Some []) (Some (''sha1='' @ hex (hmac_sha1 rt ''s3cret'' [])))))
       = \<lparr>status = 200, sent = ''ok'', received = Some (''push'', [], JObj [])\<rparr> \<and>
     snd (webhook (rt\<lparr>JSON_parse := (\<lambda>text. None)\<rparr>) verifying
            (signed_request (Some []) (Some ''sha1=forged''))) = invalid_signature \<and>
     [] \<noteq> ''sha256='' @ hex (hmac_sha256 rt ''s3cret'' [])"
proof
  fix rt :: "nat node"
  let ?rt = "rt\<lparr>JSON_parse := (\<lambda>text. None)\<rparr>"
  let ?good = "signed_request (Some []) (Some (''sha1='' @ hex (hmac_sha1 rt ''s3cret'' [])))"
  have "''forged'' \<noteq> hex (hmac_sha1 rt ''s3cret'' [])"
    by (rule not_hex) simp
  then have bad: "snd (webhook ?rt verifying (signed_request (Some []) (Some ''sha1=forged'')))
      = invalid_signature"
    by (simp add: webhook_response verifying_def signed_request_def)
  have "body ?good = Some []" "JSON_parse ?rt (Buffer_toString ?rt []) = None"
    by (simp_all add: signed_request_def)
  from unparsed_answered(3) [OF this]
  have "answered ?rt ?good = \<lparr>status = 200, sent = ''ok'', received = Some (''push'', [], JObj [])\<rparr>"
    by (simp add: signed_request_def header_or_def)
  then have good: "snd (webhook ?rt verifying ?good)
      = \<lparr>status = 200, sent = ''ok'', received = Some (''push'', [], JObj [])\<rparr>"
    by (simp add: webhook_response verifying_def signed_request_def)
  from good bad
  show "snd (webhook ?rt verifying ?good)
       = \<lparr>status = 200, sent = ''ok'', received = Some (''push'', [], JObj [])\<rparr> \<and>
     snd (webhook ?rt verifying (signed_request (Some []) (Some ''sha1=forged''))) = invalid_signature \<and>
     [] \<noteq> ''sha256='' @ hex (hmac_sha256 rt ''s3cret'' [])"
    by simp
qed

subsection \<open>A body that is not JSON\<close>

text \<open>
  C4, as the code has it. Let the body of a request be a Buffer that does not parse as
  JSON. If the request passes verification (verification is skipped, or the secret is not
  empty and the header the handler picks is the signature it computes), the handler
  answers 200 and \<open>payload\<close> is the empty object \<open>{}\<close> it was initialised with, not
  \<open>null\<close>; the handler prints a warning. The request is answered 200 exactly when it
  passes verification, and never with \<open>server error\<close>: that the body does not parse
  rejects no request.
\<close>

theorem webhook_unparsed_payload:
  assumes b: "body req = Some b"
    and fail: "JSON_parse rt (Buffer_toString rt b) = None"
  shows "(verification_passes rt cfg req b \<longrightarrow>
            snd (webhook rt cfg req) =
              \<lparr>status = 200, sent = ''ok'',
               received = Some (header_or (x_github_event req) ''unknown'',
                                header_or (x_github_delivery req) [], JObj [])\<rparr> \<and>
            Console ''Failed to parse webhook JSON payload'' [] \<in> set (fst (webhook rt cfg req))) \<and>
         (status (snd (webhook rt cfg req)) = 200) = verification_passes rt cfg req b \<and>
         sent (snd (webhook rt cfg req)) \<noteq> ''server error''"
proof -
  note u = unparsed_answered [OF b fail]
  have iff: "(status (snd (webhook rt cfg req)) = 200) = verification_passes rt cfg req b"
    using b
    by (simp add: webhook_response u(3) verification_passes_def computed_signature_def
        invalid_signature_def split: option.splits)
  have sent: "sent (snd (webhook rt cfg req)) \<noteq> ''server error''"
    using b
    by (simp add: webhook_response u(3) invalid_signature_def split: option.splits)
  have "snd (webhook rt cfg req) =
              \<lparr>status = 200, sent = ''ok'',
               received = Some (header_or (x_github_event req) ''unknown'',
                                header_or (x_github_delivery req) [], JObj [])\<rparr> \<and>
            Console ''Failed to parse webhook JSON payload'' [] \<in> set (fst (webhook rt cfg req))"
    if v: "verification_passes rt cfg req b"
  proof
    show "snd (webhook rt cfg req) =
              \<lparr>status = 200, sent = ''ok'',
               received = Some (header_or (x_github_event req) ''unknown'',
                                header_or (x_github_delivery req) [], JObj [])\<rparr>"
      using b v
      by (simp add: webhook_response u(3) verification_passes_def computed_signature_def
          split: option.splits if_splits)
    from v iff have "status (snd (webhook rt cfg req)) = 200" by simp
    from webhook_accepted_effects [OF this] u(1)
    show "Console ''Failed to parse webhook JSON payload'' [] \<in> set (fst (webhook rt cfg req))"
      by simp
  qed
  with iff sent show ?thesis by blast
qed

text \<open>
  The instance of C4 for a correctly signed push event with an empty body, on which
  \<open>JSON.parse\<close> throws.
\<close>

theorem webhook_unparsed_payload_witness:
  "verification_passes plain_runtime verifying
      (signed_request (Some (''sha256='' @ hex (0 :: 256 word))) None) [] \<and>
   snd (webhook plain_runtime verifying
      (signed_request (Some (''sha256='' @ hex (0 :: 256 word))) None))
     = \<lparr>status = 200, sent = ''ok'', received = Some (''push'', [], JObj [])\<rparr> \<and>
   Console ''Failed to parse webhook JSON payload'' [] \<in> set (fst (webhook plain_runtime verifying
      (signed_request (Some (''sha256='' @ hex (0 :: 256 word))) None)))"
proof -
  let ?req = "signed_request (Some (''sha256='' @ hex (0 :: 256 word))) None"
  have v: "verification_passes plain_runtime verifying ?req []"
    by (simp add: verification_passes_def verifying_def signed_request_def plain_runtime_def
        computed_signature_def)
  have b: "body ?req = Some []" by (simp add: signed_request_def)
  have fail: "JSON_parse plain_runtime (Buffer_toString plain_runtime []) = None"
    by (simp add: plain_runtime_def)
  from webhook_unparsed_payload [OF b fail, of verifying] v show ?thesis
    by (simp add: signed_request_def header_or_def)
qed

text \<open>
  C4 as stated fails: for an accepted push event with an empty body the payload is the
  empty object, which is not \<open>null\<close>; and the handler goes on to print a line about the
  push, which it would not do for \<open>null\<close>.
\<close>

theorem webhook_unparsed_payload_is_object:
  "snd (webhook plain_runtime debugging (signed_request None None)) =
     \<lparr>status = 200, sent = ''ok'', received = Some (''push'', [], JObj [])\<rparr> \<and>
   JObj [] \<noteq> (JNull :: nat json) \<and>
   fst (webhook plain_runtime debugging (signed_request None None)) =
     [Console ''DEBUG_WEBHOOK_NO_VERIFY is true - skipping signature verification (dev only)'' [],
      Console ''Failed to parse webhook JSON payload'' [],
      Console ''Webhook received: event=push delivery='' [],
      Console ''Push to undefined by undefined'' []]"
  by (simp add: webhook_def webhook_try_def accept_def debugging_def signed_request_def
      plain_runtime_def parse_payload_def header_or_def payload_log_def
      js_or_def truthy_def ToString_def Let_def)

subsection \<open>A payload that cannot be printed\<close>

text \<open>
  The 500 of the code that accepts a request is met: on a push event whose \<open>ref\<close> is an
  object with a property \<open>toString\<close>, line 154 throws, and the handler answers
  \<open>server error\<close> after the line about the event.
\<close>

lemma webhook_payload_not_printable:
  "webhook unprintable_runtime debugging (signed_request None None) =
     ([Console ''DEBUG_WEBHOOK_NO_VERIFY is true - skipping signature verification (dev only)'' [],
       Console ''Webhook received: event=push delivery='' [],
       Console ''Webhook handler error'' []],
      \<lparr>status = 500, sent = ''server error'', received = None\<rparr>)"
  by (simp add: webhook_def webhook_try_def accept_def debugging_def signed_request_def
      unprintable_runtime_def plain_runtime_def parse_payload_def header_or_def payload_log_def
      js_or_def truthy_def ToString_def Let_def)

section \<open>Repository analysis: properties\<close>

subsection \<open>Languages\<close>

lemma mset_sort_insert: "mset (sort_insert f x ys) = add_mset x (mset ys)"
  by (induction ys) auto

lemma mset_js_sort: "mset (js_sort f xs) = mset xs"
  by (induction xs) (auto simp: mset_sort_insert)

lemma set_sort_insert: "set (sort_insert f x ys) = insert x (set ys)"
  by (induction ys) auto

lemma sorted_sort_insert:
  "sorted_wrt (\<lambda>a b. snd b \<le> snd a) ys \<Longrightarrow>
   sorted_wrt (\<lambda>a b. snd b \<le> snd a) (sort_insert compare_counts x ys)"
  by (induction ys) (auto simp: set_sort_insert compare_counts_def)

lemma sorted_js_sort: "sorted_wrt (\<lambda>a b. snd b \<le> snd a) (js_sort compare_counts xs)"
  by (induction xs) (auto simp: sorted_sort_insert)

lemma stable_sort_insert:
  "filter (\<lambda>e. snd e = c) (sort_insert compare_counts x ys) = filter (\<lambda>e. snd e = c) (x # ys)"
  by (induction ys) (auto simp: compare_counts_def)

lemma stable_js_sort:
  "filter (\<lambda>e. snd e = c) (js_sort compare_counts xs) = filter (\<lambda>e. snd e = c) xs"
  by (induction xs) (auto simp: stable_sort_insert)

lemma push_languages_eq:
  "push_languages ranked acc = acc @ List.map_filter (\<lambda>e. map_get (fst e)) ranked"
  by (induction ranked acc rule: push_languages.induct)
     (auto split: option.splits)

lemma map_get_own:
  "ext \<notin> set Object_prototype_names \<Longrightarrow> map_get ext = map_option Label (map_of language_map ext)"
  by (simp add: map_get_def split: option.splits)

lemma map_filter_own:
  "set (map fst es) \<inter> set Object_prototype_names = {} \<Longrightarrow>
   List.map_filter (\<lambda>e. map_get (fst e)) es
     = map Label (List.map_filter (\<lambda>e. map_of language_map (fst e)) es)"
  by (induction es) (auto simp: map_get_own split: option.splits)

text \<open>
  C6, as the code has it. For counts whose keys are none of the names an object inherits
  from \<open>Object.prototype\<close>, \<open>detectPrimaryLanguages\<close> returns at most three labels: the
  entries are sorted by descending count, entries with equal counts staying in the order
  of the object; the extensions that the table does not have are skipped, so they take
  no slot; the result is the labels of the first three that remain. The labels need not
  be distinct. On \<open>{js: 5, ts: 3, unknownext: 10}\<close> the result is JavaScript, TypeScript.
\<close>

theorem detectPrimaryLanguages_ranked:
  assumes "set (map fst extCounts) \<inter> set Object_prototype_names = {}"
  shows "length (detectPrimaryLanguages extCounts) \<le> 3 \<and>
         (\<exists>ranked.
            mset ranked = mset extCounts \<and>
            sorted_wrt (\<lambda>a b. snd b \<le> snd a) ranked \<and>
            (\<forall>c. filter (\<lambda>e. snd e = c) ranked = filter (\<lambda>e. snd e = c) extCounts) \<and>
            detectPrimaryLanguages extCounts
              = take 3 (map Label (List.map_filter (\<lambda>e. map_of language_map (fst e)) ranked))) \<and>
         detectPrimaryLanguages [(''js'', 5), (''ts'', 3), (''unknownext'', 10)]
           = [Label ''JavaScript'', Label ''TypeScript'']"
proof (intro conjI)
  show "length (detectPrimaryLanguages extCounts) \<le> 3"
    by (simp add: detectPrimaryLanguages_def)
next
  let ?ranked = "ranked_entries extCounts"
  have perm: "mset ?ranked = mset extCounts"
    by (simp add: ranked_entries_def mset_js_sort)
  then have "set (map fst ?ranked) = set (map fst extCounts)"
    by (metis mset_map set_mset_mset)
  with assms have own: "set (map fst ?ranked) \<inter> set Object_prototype_names = {}"
    by simp
  have "detectPrimaryLanguages extCounts
          = take 3 (map Label (List.map_filter (\<lambda>e. map_of language_map (fst e)) ?ranked))"
    by (simp add: detectPrimaryLanguages_def push_languages_eq map_filter_own [OF own])
  moreover have "sorted_wrt (\<lambda>a b. snd b \<le> snd a) ?ranked"
    by (simp add: ranked_entries_def sorted_js_sort)
  moreover have "\<forall>c. filter (\<lambda>e. snd e = c) ?ranked = filter (\<lambda>e. snd e = c) extCounts"
    by (simp add: ranked_entries_def stable_js_sort)
  ultimately show "\<exists>ranked.
            mset ranked = mset extCounts \<and>
            sorted_wrt (\<lambda>a b. snd b \<le> snd a) ranked \<and>
            (\<forall>c. filter (\<lambda>e. snd e = c) ranked = filter (\<lambda>e. snd e = c) extCounts) \<and>
            detectPrimaryLanguages extCounts
              = take 3 (map Label (List.map_filter (\<lambda>e. map_of language_map (fst e)) ranked))"
    using perm by blast
next
  show "detectPrimaryLanguages [(''js'', 5), (''ts'', 3), (''unknownext'', 10)]
           = [Label ''JavaScript'', Label ''TypeScript'']"
    by (simp add: detectPrimaryLanguages_def ranked_entries_def compare_counts_def map_get_def language_map_def
        Object_prototype_names_def)
qed

text \<open>
  C6 as stated fails on "distinct": \<open>cpp\<close> and \<open>c\<close> have the same label, and nothing
  removes a repeated label.
\<close>

theorem detectPrimaryLanguages_not_distinct:
  "detectPrimaryLanguages [(''cpp'', 2), (''c'', 1)] = [Label ''C/C++'', Label ''C/C++''] \<and>
   \<not> distinct (detectPrimaryLanguages [(''cpp'', 2), (''c'', 1)])"
  by (simp add: detectPrimaryLanguages_def ranked_entries_def compare_counts_def map_get_def language_map_def)

text \<open>
  Why the keys are restricted: \<open>map['constructor']\<close> is the function that every object
  inherits, which \<open>if (map[ext])\<close> takes for a label.
\<close>

lemma detectPrimaryLanguages_inherited:
  "detectPrimaryLanguages [(''constructor'', 4), (''js'', 1)] = [Inherited ''constructor'', Label ''JavaScript'']"
  by (simp add: detectPrimaryLanguages_def ranked_entries_def compare_counts_def map_get_def language_map_def
      Object_prototype_names_def)

text \<open>
  The instance of C6 for five extensions: \<open>md\<close>, the most frequent, is not in the table;
  \<open>c\<close> and \<open>py\<close> tie and keep their order; \<open>go\<close> comes before \<open>rs\<close> for the same reason.
\<close>

theorem detectPrimaryLanguages_ranked_witness:
  "set (map fst [(''go'', 1 :: nat), (''md'', 7), (''c'', 2), (''py'', 2), (''rs'', 1)])
     \<inter> set Object_prototype_names = {} \<and>
   detectPrimaryLanguages [(''go'', 1), (''md'', 7), (''c'', 2), (''py'', 2), (''rs'', 1)]
     = [Label ''C/C++'', Label ''Python'', Label ''Go'']"
proof -
  let ?es = "[(''go'', 1 :: nat), (''md'', 7), (''c'', 2), (''py'', 2), (''rs'', 1)]"
  have own: "set (map fst ?es) \<inter> set Object_prototype_names = {}"
    by (simp add: Object_prototype_names_def)
  obtain ranked where perm: "mset ranked = mset ?es"
    and sorted: "sorted_wrt (\<lambda>a b. snd b \<le> snd a) ranked"
    and stable: "\<forall>c. filter (\<lambda>e. snd e = c) ranked = filter (\<lambda>e. snd e = c) ?es"
    and res: "detectPrimaryLanguages ?es
                = take 3 (map Label (List.map_filter (\<lambda>e. map_of language_map (fst e)) ranked))"
    using detectPrimaryLanguages_ranked [OF own] by blast
  have "detectPrimaryLanguages ?es = [Label ''C/C++'', Label ''Python'', Label ''Go'']"
    by (simp add: detectPrimaryLanguages_def ranked_entries_def compare_counts_def map_get_def language_map_def
        Object_prototype_names_def)
  with own show ?thesis by blast
qed

subsection \<open>The bounded fetch\<close>

lemma indexOf_ge: "- 1 \<le> indexOf xs v"
  by (induction xs) (auto simp: Let_def)

lemma indexOf_neg_iff: "indexOf xs v < 0 \<longleftrightarrow> v \<notin> set xs"
proof (induction xs)
  case Nil
  then show ?case by simp
next
  case (Cons x xs)
  have "- 1 \<le> indexOf xs v" by (rule indexOf_ge)
  with Cons show ?case by (auto simp: Let_def)
qed

lemma indexOf_not_mem: "v \<notin> set xs \<Longrightarrow> indexOf xs v = - 1"
  using indexOf_neg_iff [of xs v] indexOf_ge [of xs v] by simp

lemma indexOf_less: "indexOf xs v < int (length xs)"
  by (induction xs) (auto simp: Let_def)

lemma indexOf_append:
  "indexOf (xs @ ys) v =
     (if v \<in> set xs then indexOf xs v
      else if v \<in> set ys then int (length xs) + indexOf ys v else - 1)"
proof (induction xs)
  case Nil
  then show ?case by (simp add: indexOf_not_mem)
next
  case (Cons x xs)
  have "v \<in> set ys \<Longrightarrow> 0 \<le> indexOf ys v"
    using indexOf_neg_iff [of ys v] by simp
  with Cons show ?case
    by (auto simp: Let_def indexOf_neg_iff indexOf_not_mem)
qed

lemma first_occurrences_gen:
  "map snd (filter (\<lambda>(i, v). indexOf (pre @ a) v = int i) (enumerate (length pre) a))
     = keep (set pre) a"
proof (induction a arbitrary: pre)
  case Nil
  then show ?case by simp
next
  case (Cons x xs)
  have tl: "map snd (filter (\<lambda>(i, v). indexOf (pre @ x # xs) v = int i) (enumerate (Suc (length pre)) xs))
            = keep (insert x (set pre)) xs"
    using Cons.IH [of "pre @ [x]"] by simp
  have hd: "indexOf (pre @ x # xs) x = int (length pre) \<longleftrightarrow> x \<notin> set pre"
    using indexOf_less [of pre x] by (simp add: indexOf_append)
  show ?case
  proof (cases "x \<in> set pre")
    case True
    then have "insert x (set pre) = set pre" by auto
    with True hd tl show ?thesis by simp
  next
    case False
    with hd tl show ?thesis by simp
  qed
qed

lemma first_occurrences_keep: "first_occurrences a = keep {} a"
  using first_occurrences_gen [of "[]" a] by (simp add: first_occurrences_def)

lemma set_keep: "set (keep S xs) = set xs - S"
  by (induction xs arbitrary: S) auto

lemma distinct_keep: "distinct (keep S xs)"
  by (induction xs arbitrary: S) (auto simp: set_keep)

lemma keep_append: "keep S (xs @ ys) = keep S xs @ keep (S \<union> set xs) ys"
  by (induction xs arbitrary: S) (auto simp: insert_absorb)

lemma keep_distinct_id: "distinct xs \<Longrightarrow> set xs \<inter> S = {} \<Longrightarrow> keep S xs = xs"
  by (induction xs arbitrary: S) auto

lemma distinct_priority: "distinct priority"
  by (simp add: priority_def)

lemma toFetch_shape:
  "toFetch found = priority @ keep (set priority) (filter (\<lambda>p. p \<notin> set priority) found)"
  by (simp add: toFetch_def first_occurrences_keep keep_append keep_distinct_id distinct_priority)

lemma distinct_toFetch: "distinct (toFetch found)"
  by (simp add: toFetch_def first_occurrences_keep distinct_keep)

lemma length_priority: "length priority = 10"
  by (simp add: priority_def)

lemma fetch_all_called: "snd (fetch_all oct ps (fc, called)) = called @ ps"
  by (induction ps arbitrary: fc called) (auto split: option.splits)

lemma map_of_obj_set: "map_of (obj_set kvs k v) = (map_of kvs)(k \<mapsto> v)"
  by (induction kvs) auto

lemma fetch_all_snippets:
  "map_of (fst (fetch_all oct ps (fc, called))) p =
     (if p \<in> set ps then
        (case present (safeGetFile oct p) of
           Some txt \<Rightarrow> Some (shortSnippet txt 2000)
         | None \<Rightarrow> map_of fc p)
      else map_of fc p)"
  by (induction ps arbitrary: fc called) (auto simp: map_of_obj_set split: option.splits)


lemma analyzeRepo_called:
  "fst (analyzeRepo rt oct owner nm rf) =
     (case getTree oct of
        None \<Rightarrow> []
      | Some tree \<Rightarrow> take 40 (toFetch (workflow_files tree (interesting_files tree []))))"
  using fetch_all_called [of oct _ "[]" "[]"]
  by (simp add: analyzeRepo_def case_prod_beta Let_def split: option.splits)

lemma analyzeRepo_snippets:
  assumes "getTree oct = Some tree"
  shows "\<exists>a. snd (analyzeRepo rt oct owner nm rf) = Inr a \<and>
             snippets a = fst (fetch_all oct (take 40 (toFetch (workflow_files tree (interesting_files tree [])))) ([], []))
           \<and> detected a = detect rt tree (snippets a)
           \<and> filesFound a = workflow_files tree (interesting_files tree [])"
  using assms fetch_all_called [of oct _ "[]" "[]"] by (simp add: analyzeRepo_def case_prod_beta Let_def)

text \<open>
  C9. Whatever the tree and the answers of the API, \<open>analyzeRepo\<close> calls \<open>getContent\<close>
  for at most 40 paths, and for no path twice.
\<close>

theorem fetch_bounded:
  "length (fst (analyzeRepo rt oct owner nm rf)) \<le> 40 \<and>
   distinct (fst (analyzeRepo rt oct owner nm rf))"
  by (simp add: analyzeRepo_called distinct_toFetch split: option.splits)

text \<open>
  C10, as the code has it. Whenever the tree can be had, whatever it contains, the analysis
  completes, and the first ten calls to \<open>getContent\<close> are for the ten priority names, in
  their order. The snippets are what these calls answered: a path has an entry exactly
  when \<open>getContent\<close> was called for it and answered with a file whose text is not empty,
  and the entry is that text cut at 2000 characters; a call that fails, or that answers
  with a directory listing or an empty text, leaves no entry. In particular a priority
  name that the API serves has its entry also when the tree does not list it.
\<close>

theorem priority_always_fetched:
  assumes "getTree oct = Some tree"
  shows "\<exists>called a. analyzeRepo rt oct owner nm rf = (called, Inr a) \<and>
           take 10 called = priority \<and>
           (\<forall>p. map_of (snippets a) p =
                  (if p \<in> set called then
                     (case getContent oct p of
                        Rejected \<Rightarrow> None
                      | Listing \<Rightarrow> None
                      | Blob txt \<Rightarrow> if txt = [] then None else Some (shortSnippet txt 2000))
                   else None)) \<and>
           (\<forall>p txt. p \<in> set priority \<and> getContent oct p = Blob txt \<and> txt \<noteq> [] \<longrightarrow>
                  map_of (snippets a) p = Some (shortSnippet txt 2000))"
proof -
  let ?found = "workflow_files tree (interesting_files tree [])"
  let ?ps = "take 40 (toFetch ?found)"
  obtain a where a: "snd (analyzeRepo rt oct owner nm rf) = Inr a"
    and sn: "snippets a = fst (fetch_all oct ?ps ([], []))"
    using analyzeRepo_snippets [OF assms] by blast
  have called: "fst (analyzeRepo rt oct owner nm rf) = ?ps"
    using assms by (simp add: analyzeRepo_called)
  have eq: "analyzeRepo rt oct owner nm rf = (?ps, Inr a)"
    using a called by (simp add: prod_eq_iff)
  have first: "take 10 ?ps = priority"
    by (simp add: toFetch_shape length_priority)
  have look: "map_of (snippets a) p =
                (if p \<in> set ?ps then
                   (case getContent oct p of
                      Rejected \<Rightarrow> None
                    | Listing \<Rightarrow> None
                    | Blob txt \<Rightarrow> if txt = [] then None else Some (shortSnippet txt 2000))
                 else None)" for p
    unfolding sn fetch_all_snippets
    by (simp add: safeGetFile_def split: content.splits)
  have "set priority \<subseteq> set ?ps"
    using set_take_subset [of 10 ?ps] first by (metis set_take_subset)
  then have served: "\<forall>p txt. p \<in> set priority \<and> getContent oct p = Blob txt \<and> txt \<noteq> [] \<longrightarrow>
                  map_of (snippets a) p = Some (shortSnippet txt 2000)"
    by (auto simp: look)
  show ?thesis
    using eq first look served by blast
qed

text \<open>
  The instance of C10 for an empty tree and an API that serves a \<open>Makefile\<close> and fails on
  every other path: exactly the ten priority names are requested, and the \<open>Makefile\<close>,
  which the tree does not list, is the one snippet.
\<close>

theorem priority_always_fetched_witness:
  "getTree (repository [] [(''Makefile'', ''all: build'')]) = Some [] \<and>
   (\<exists>a. analyzeRepo plain_runtime (repository [] [(''Makefile'', ''all: build'')])
           ''octocat'' ''hello'' ''main'' = (priority, Inr a) \<and>
        map_of (snippets a) ''Makefile'' = Some ''all: build'' \<and>
        map_of (snippets a) ''package.json'' = None \<and>
        map_of (snippets a) ''README.md'' = None)"
proof -
  let ?oct = "repository [] [(''Makefile'', ''all: build'')]"
  have t: "getTree ?oct = Some []" by (simp add: repository_def)
  obtain called a where eq: "analyzeRepo plain_runtime ?oct ''octocat'' ''hello'' ''main'' = (called, Inr a)"
    and ten: "take 10 called = priority"
    and look: "\<forall>p. map_of (snippets a) p =
                  (if p \<in> set called then
                     (case getContent ?oct p of
                        Rejected \<Rightarrow> None
                      | Listing \<Rightarrow> None
                      | Blob txt \<Rightarrow> if txt = [] then None else Some (shortSnippet txt 2000))
                   else None)"
    using priority_always_fetched [OF t, of plain_runtime "''octocat''" "''hello''" "''main''"] by blast
  have "called = fst (analyzeRepo plain_runtime ?oct ''octocat'' ''hello'' ''main'')"
    using eq by simp
  also have "\<dots> = take 40 (toFetch [])"
    by (simp add: analyzeRepo_called repository_def)
  also have "\<dots> = priority"
    by (simp add: toFetch_shape length_priority)
  finally have c: "called = priority" .
  have m: "map_of (snippets a) ''Makefile'' = Some ''all: build''"
    using look by (simp add: c priority_def repository_def shortSnippet_def)
  have p: "map_of (snippets a) ''package.json'' = None"
    using look by (simp add: c priority_def repository_def)
  have r: "map_of (snippets a) ''README.md'' = None"
    using look by (simp add: c priority_def repository_def)
  from t eq c m p r show ?thesis by blast
qed

text \<open>
  C10 as stated fails for an analysis whose tree cannot be had (one of the three calls of
  lines 98 to 102 fails, as for a branch that does not exist): \<open>analyzeRepo\<close> rejects
  before line 134, and no file is requested, though the API would serve every path.
\<close>

theorem no_fetch_without_tree:
  "analyzeRepo plain_runtime \<lparr>getTree = None, getContent = (\<lambda>p. Blob ''all: build'')\<rparr>
     ''octocat'' ''hello'' ''main'' = ([], Inl RequestFailed)"
  by (simp add: analyzeRepo_def)


subsection \<open>What each rule changes\<close>

lemma python_keeps:
  "entrypoint (python fc d) = entrypoint d"
  "hasDocker (python fc d) = hasDocker d"
  "dockerInfo (python fc d) = dockerInfo d"
  "license (python fc d) = license d"
  "readme (python fc d) = readme d"
  "hasTests d \<Longrightarrow> hasTests (python fc d)"
  "set (testCommands d) \<subseteq> set (testCommands (python fc d))"
  by (auto simp: python_def Let_def split: option.splits)

lemma docker_keeps:
  "license (docker rt fc d) = license d"
  "readme (docker rt fc d) = readme d"
  "hasTests (docker rt fc d) = hasTests d"
  "testCommands (docker rt fc d) = testCommands d"
  by (auto simp: docker_def Let_def split: option.splits)

lemma docker_sets:
  "hasDocker (docker rt fc d) = (hasDocker d \<or> fetched fc ''Dockerfile'' \<or> fetched fc ''docker-compose.yml'')"
  "dockerInfo (docker rt fc d) =
     (if fetched fc ''Dockerfile'' \<or> fetched fc ''docker-compose.yml'' then Some (dock_of fc)
      else dockerInfo d)"
  "entrypoint (docker rt fc d) =
     (if fetched fc ''Dockerfile'' \<or> fetched fc ''docker-compose.yml'' then
        (case present (cmd (dock_of fc)) of
           Some c \<Rightarrow> if truthy rt (entrypoint d) then entrypoint d else Some (JStr c)
         | None \<Rightarrow> entrypoint d)
      else entrypoint d)"
  by (auto simp: docker_def Let_def split: option.splits)

lemma ci_keeps:
  "entrypoint (ci fc d) = entrypoint d"
  "hasDocker (ci fc d) = hasDocker d"
  "dockerInfo (ci fc d) = dockerInfo d"
  "license (ci fc d) = license d"
  "readme (ci fc d) = readme d"
  "hasTests (ci fc d) = hasTests d"
  "testCommands (ci fc d) = testCommands d"
  by (auto simp: ci_def Let_def)

lemma readme_license_keeps:
  "entrypoint (readme_license fc d) = entrypoint d"
  "hasDocker (readme_license fc d) = hasDocker d"
  "dockerInfo (readme_license fc d) = dockerInfo d"
  "hasTests (readme_license fc d) = hasTests d"
  "testCommands (readme_license fc d) = testCommands d"
  by (auto simp: readme_license_def Let_def split: option.splits)

lemma readme_license_sets:
  "license (readme_license fc d) =
     (case present (find (regex_test_ci ''license'') (map fst fc)) of
        Some p \<Rightarrow> Some p | None \<Rightarrow> license d)"
  "readme (readme_license fc d) =
     (case present (find (regex_test_ci ''readme'') (map fst fc)) of
        Some p \<Rightarrow> Some (case map_of fc p of Some t \<Rightarrow> shortSnippet t 1500 | None \<Rightarrow> [])
      | None \<Rightarrow> readme d)"
  by (auto simp: readme_license_def Let_def split: option.splits)

lemma tests_keeps:
  "entrypoint (tests tree d) = entrypoint d"
  "hasDocker (tests tree d) = hasDocker d"
  "dockerInfo (tests tree d) = dockerInfo d"
  "license (tests tree d) = license d"
  "readme (tests tree d) = readme d"
  "hasTests d \<Longrightarrow> tests tree d = d"
  "hasTests (tests tree d) = (hasTests d \<or> list_ex (\<lambda>t. test_folder (path t)) tree)"
  by (auto simp: tests_def)

lemma run_fallback_keeps:
  "entrypoint (run_fallback d) = entrypoint d"
  "hasDocker (run_fallback d) = hasDocker d"
  "dockerInfo (run_fallback d) = dockerInfo d"
  "license (run_fallback d) = license d"
  "readme (run_fallback d) = readme d"
  "hasTests (run_fallback d) = hasTests d"
  "testCommands (run_fallback d) = testCommands d"
  by (auto simp: run_fallback_def)

lemma package_json_keeps:
  "hasDocker (package_json rt fc d) = hasDocker d"
  "dockerInfo (package_json rt fc d) = dockerInfo d"
  "license (package_json rt fc d) = license d"
  "readme (package_json rt fc d) = readme d"
  by (auto simp: package_json_def Let_def split: option.splits sum.splits)


lemma detect_entrypoint:
  "entrypoint (detect rt tree fc) =
     (let e = entrypoint (package_json rt fc nothing_detected) in
      if fetched fc ''Dockerfile'' \<or> fetched fc ''docker-compose.yml'' then
        (case present (cmd (dock_of fc)) of
           Some c \<Rightarrow> if truthy rt e then e else Some (JStr c)
         | None \<Rightarrow> e)
      else e)"
  by (simp add: detect_def run_fallback_keeps tests_keeps readme_license_keeps ci_keeps
      docker_sets python_keeps Let_def split: option.splits)

lemma detect_license:
  "license (detect rt tree fc) = present (find (regex_test_ci ''license'') (map fst fc))"
  by (simp add: detect_def run_fallback_keeps tests_keeps readme_license_sets ci_keeps
      docker_keeps python_keeps package_json_keeps nothing_detected_def split: option.splits)

lemma detect_readme:
  "readme (detect rt tree fc) =
     (case present (find (regex_test_ci ''readme'') (map fst fc)) of
        Some p \<Rightarrow> Some (case map_of fc p of Some t \<Rightarrow> shortSnippet t 1500 | None \<Rightarrow> [])
      | None \<Rightarrow> None)"
  by (simp add: detect_def run_fallback_keeps tests_keeps readme_license_sets ci_keeps
      docker_keeps python_keeps package_json_keeps nothing_detected_def split: option.splits)

lemma detect_tests_from_manifest:
  assumes "hasTests (package_json rt fc nothing_detected)"
  shows "hasTests (detect rt tree fc)"
    and "set (testCommands (package_json rt fc nothing_detected)) \<subseteq> set (testCommands (detect rt tree fc))"
proof -
  let ?d = "docker rt fc (python fc (package_json rt fc nothing_detected))"
  have h: "hasTests (readme_license fc (ci fc ?d))"
    using assms by (simp add: readme_license_keeps ci_keeps docker_keeps python_keeps)
  then have t: "tests tree (readme_license fc (ci fc ?d)) = readme_license fc (ci fc ?d)"
    by (rule tests_keeps)
  show "hasTests (detect rt tree fc)"
    using h by (simp add: detect_def run_fallback_keeps t)
  show "set (testCommands (package_json rt fc nothing_detected)) \<subseteq> set (testCommands (detect rt tree fc))"
    using python_keeps(7) [of "package_json rt fc nothing_detected" fc]
    by (simp add: detect_def run_fallback_keeps t readme_license_keeps ci_keeps docker_keeps)
qed




lemma shortSnippet_nonempty: "t \<noteq> [] \<Longrightarrow> shortSnippet t n \<noteq> []"
  by (simp add: shortSnippet_def)

lemma present_Some_iff: "present x = Some a \<longleftrightarrow> x = Some a \<and> a \<noteq> []"
  by (cases x) auto

lemma priority_in_take: "p \<in> set priority \<Longrightarrow> p \<in> set (take 40 (toFetch found))"
  by (simp add: toFetch_shape length_priority)

lemma snippet_of_priority:
  assumes "p \<in> set priority"
  shows "map_of (fst (fetch_all oct (take 40 (toFetch found)) ([], []))) p =
           map_option (\<lambda>t. shortSnippet t 2000) (present (safeGetFile oct p))"
  using priority_in_take [OF assms, of found]
  by (simp add: fetch_all_snippets split: option.splits)



lemma safeGetFile_repository: "safeGetFile (repository tree files) p = map_of files p"
  by (simp add: safeGetFile_def repository_def split: option.splits)

lemma analyzeRepo_unfold:
  assumes "getTree oct = Some tree"
  shows "analyzeRepo rt oct owner nm rf =
     (take 40 (toFetch (workflow_files tree (interesting_files tree []))),
      Inr \<lparr>repo = owner @ ''/'' @ nm, ref = rf,
           filesFound = workflow_files tree (interesting_files tree []),
           detected = detect rt tree
             (fst (fetch_all oct (take 40 (toFetch (workflow_files tree (interesting_files tree [])))) ([], []))),
           snippets =
             fst (fetch_all oct (take 40 (toFetch (workflow_files tree (interesting_files tree [])))) ([], []))\<rparr>)"
  using assms fetch_all_called [of oct _ "[]" "[]"]
  by (simp add: analyzeRepo_def case_prod_beta Let_def)

lemma ci_prefix_simps:
  "ci_prefix [] s = True"
  "ci_prefix (p # ps) [] = False"
  "ci_prefix (p # ps) (c # cs) = (regex_canon p = regex_canon c \<and> ci_prefix ps cs)"
  by (auto simp: ci_prefix_def)



lemma priority_members:
  "''Dockerfile'' \<in> set priority" "''docker-compose.yml'' \<in> set priority"
  "''package.json'' \<in> set priority"
  by (simp_all add: priority_def)


subsection \<open>The container descriptor\<close>









lemma facts_of_unfold:
  "getTree oct = Some tree \<Longrightarrow>
   facts_of (analyzeRepo rt oct owner nm rf) =
     Some (detect rt tree
       (fst (fetch_all oct (take 40 (toFetch (workflow_files tree (interesting_files tree [])))) ([], []))))"
  by (simp add: analyzeRepo_unfold facts_of_def)

lemma getTree_repository: "getTree (repository tree files) = Some tree"
  by (simp add: repository_def)












subsection \<open>The scripts of \<open>package.json\<close>\<close>

lemma get_prop_Some_obj: "get_prop v k = Some x \<Longrightarrow> \<exists>kvs. v = JObj kvs"
  by (cases v) auto

lemma package_json_scripts:
  assumes has_text: "present (map_of fc ''package.json'') = Some text"
    and pj: "JSON_parse rt text = Some pj"
    and scripts: "get_prop pj ''scripts'' = Some scripts"
    and start: "get_prop scripts ''start'' = Some st" "js_truthy rt st"
    and test: "get_prop scripts ''test'' = Some te" "js_truthy rt te"
  shows "entrypoint (package_json rt fc nothing_detected) = Some st"
    and "hasTests (package_json rt fc nothing_detected)"
    and "testCommands (package_json rt fc nothing_detected) = [te]"
proof -
  obtain kvs where kvs: "pj = JObj kvs" using get_prop_Some_obj [OF scripts] by blast
  obtain svs where svs: "scripts = JObj svs" using get_prop_Some_obj [OF start(1)] by blast
  have s: "map_of kvs ''scripts'' = Some (JObj svs)" using scripts kvs svs by simp
  have a: "map_of svs ''start'' = Some st" "map_of svs ''test'' = Some te"
    using start(1) test(1) svs by simp_all
  show "entrypoint (package_json rt fc nothing_detected) = Some st"
    using has_text pj kvs s a start(2) test(2)
    by (simp add: package_json_def nothing_detected_def Let_def truthy_def js_or_def
        split: option.splits)
  show "hasTests (package_json rt fc nothing_detected)"
    using has_text pj kvs s a start(2) test(2)
    by (simp add: package_json_def nothing_detected_def Let_def truthy_def js_or_def
        split: option.splits)
  show "testCommands (package_json rt fc nothing_detected) = [te]"
    using has_text pj kvs s a start(2) test(2)
    by (simp add: package_json_def nothing_detected_def Let_def truthy_def js_or_def
        split: option.splits)
qed

lemma found_only_manifest:
  "workflow_files [blob ''package.json''] (interesting_files [blob ''package.json''] []) = [''package.json'']"
  by (simp add: blob_def PATHS_OF_INTEREST_def CI_PATH_PREFIX_def startsWith_def)

lemma snippets_only_manifest:
  "t \<noteq> [] \<Longrightarrow> length t \<le> 2000 \<Longrightarrow>
   fst (fetch_all (repository tree [(''package.json'', t)]) (take 40 (toFetch [''package.json''])) ([], []))
     = [(''package.json'', t)]"
  by (simp add: toFetch_shape priority_def safeGetFile_repository shortSnippet_def)

lemma manifests_short:
  "empty_scripts \<noteq> []" "length empty_scripts \<le> 2000"
  "both_scripts \<noteq> []" "length both_scripts \<le> 2000" "empty_scripts \<noteq> both_scripts"
  by (simp_all add: empty_scripts_def both_scripts_def)

text \<open>
  C7, as the code has it. Whenever the tree can be had and the snippet of the fetched
  \<open>package.json\<close> (its text, cut at 2000 characters) parses as JSON to an object whose
  \<open>scripts\<close> has a \<open>start\<close> and a \<open>test\<close> that count as true in a condition (for a string:
  not empty), the analysis completes with \<open>hasTests\<close> true, the test script among
  \<open>testCommands\<close>, and the start script as the entry point, whatever \<open>main\<close> is: the
  fallback \<open>node <main>\<close> is not used, and no later rule replaces the entry point.
\<close>

theorem manifest_scripts_detected:
  assumes tree: "getTree oct = Some tree"
    and raw: "safeGetFile oct ''package.json'' = Some raw" "raw \<noteq> []"
    and pj: "JSON_parse rt (shortSnippet raw 2000) = Some pj"
    and scripts: "get_prop pj ''scripts'' = Some scripts"
    and start: "get_prop scripts ''start'' = Some st" "js_truthy rt st"
    and test: "get_prop scripts ''test'' = Some te" "js_truthy rt te"
  shows "\<exists>called a.
     analyzeRepo rt oct owner nm rf = (called, Inr a) \<and>
     hasTests (detected a) \<and>
     te \<in> set (testCommands (detected a)) \<and>
     entrypoint (detected a) = Some st"
proof -
  let ?found = "workflow_files tree (interesting_files tree [])"
  let ?fc = "fst (fetch_all oct (take 40 (toFetch ?found)) ([], []))"
  let ?a = "\<lparr>repo = owner @ ''/'' @ nm, ref = rf, filesFound = ?found,
             detected = detect rt tree ?fc, snippets = ?fc\<rparr>"
  have eq: "analyzeRepo rt oct owner nm rf = (take 40 (toFetch ?found), Inr ?a)"
    by (rule analyzeRepo_unfold [OF tree])
  have p: "present (safeGetFile oct ''package.json'') = Some raw"
    using raw by simp
  have "map_of ?fc ''package.json'' = Some (shortSnippet raw 2000)"
    by (simp add: snippet_of_priority [OF priority_members(3)] p)
  then have has_text: "present (map_of ?fc ''package.json'') = Some (shortSnippet raw 2000)"
    using shortSnippet_nonempty [OF raw(2), of 2000] by simp
  note stage = package_json_scripts [OF has_text pj scripts start test]
  have 1: "hasTests (detected ?a)"
    using detect_tests_from_manifest(1) [OF stage(2)] by simp
  have 2: "te \<in> set (testCommands (detected ?a))"
    using detect_tests_from_manifest(2) [OF stage(2), of tree] stage(3) by simp
  have 3: "entrypoint (detected ?a) = Some st"
    using stage(1) start(2)
    by (simp add: detect_entrypoint Let_def truthy_def split: option.splits)
  from eq 1 2 3 show ?thesis by blast
qed

text \<open>
  The instance of C7 for a manifest with the scripts \<open>node index.js\<close> and \<open>jest\<close> and a
  \<open>main\<close> file.
\<close>

theorem manifest_scripts_detected_witness:
  "safeGetFile (repository [blob ''package.json''] [(''package.json'', both_scripts)]) ''package.json''
     = Some both_scripts \<and>
   JSON_parse manifest_runtime (shortSnippet both_scripts 2000) =
     Some (JObj [(''scripts'', JObj [(''start'', JStr ''node index.js''), (''test'', JStr ''jest'')]),
                 (''main'', JStr ''lib.js'')]) \<and>
   map_option entrypoint
     (facts_of (analyzeRepo manifest_runtime
        (repository [blob ''package.json''] [(''package.json'', both_scripts)])
        ''octocat'' ''hello'' ''main''))
     = Some (Some (JStr ''node index.js'')) \<and>
   map_option hasTests
     (facts_of (analyzeRepo manifest_runtime
        (repository [blob ''package.json''] [(''package.json'', both_scripts)])
        ''octocat'' ''hello'' ''main''))
     = Some True"
proof -
  let ?oct = "repository [blob ''package.json''] [(''package.json'', both_scripts)]"
  let ?scripts = "JObj [(''start'', JStr ''node index.js''), (''test'', JStr ''jest'')] :: nat json"
  let ?pj = "JObj [(''scripts'', ?scripts), (''main'', JStr ''lib.js'')]"
  have t: "getTree ?oct = Some [blob ''package.json'']" by (rule getTree_repository)
  have raw: "safeGetFile ?oct ''package.json'' = Some both_scripts"
    by (simp add: safeGetFile_repository)
  have short: "shortSnippet both_scripts 2000 = both_scripts"
    using manifests_short(3,4) by (simp add: shortSnippet_def)
  have pj: "JSON_parse manifest_runtime (shortSnippet both_scripts 2000) = Some ?pj"
    unfolding short using manifests_short(5) by (simp add: manifest_runtime_def)
  have scripts: "get_prop ?pj ''scripts'' = Some ?scripts" by simp
  have start: "get_prop ?scripts ''start'' = Some (JStr ''node index.js'')"
    "js_truthy manifest_runtime (JStr ''node index.js'' :: nat json)" by simp_all
  have test: "get_prop ?scripts ''test'' = Some (JStr ''jest'')"
    "js_truthy manifest_runtime (JStr ''jest'' :: nat json)" by simp_all
  obtain called a where eq: "analyzeRepo manifest_runtime ?oct ''octocat'' ''hello'' ''main'' = (called, Inr a)"
    and facts: "hasTests (detected a)" "entrypoint (detected a) = Some (JStr ''node index.js'')"
    using manifest_scripts_detected [OF t raw manifests_short(3) pj scripts start test,
        of "''octocat''" "''hello''" "''main''"]
    by blast
  have "facts_of (analyzeRepo manifest_runtime ?oct ''octocat'' ''hello'' ''main'') = Some (detected a)"
    by (simp add: eq facts_of_def)
  with raw pj facts show ?thesis by simp
qed

lemma empty_scripts_evaluated:
  "JSON_parse manifest_runtime empty_scripts =
     Some (JObj [(''scripts'', JObj [(''start'', JStr []), (''test'', JStr [])]),
                 (''main'', JStr ''lib.js'')]) \<and>
   map_option entrypoint
     (facts_of (analyzeRepo manifest_runtime
        (repository [blob ''package.json''] [(''package.json'', empty_scripts)])
        ''octocat'' ''hello'' ''main''))
     = Some (Some (JStr ''node lib.js'')) \<and>
   map_option hasTests
     (facts_of (analyzeRepo manifest_runtime
        (repository [blob ''package.json''] [(''package.json'', empty_scripts)])
        ''octocat'' ''hello'' ''main''))
     = Some False \<and>
   map_option testCommands
     (facts_of (analyzeRepo manifest_runtime
        (repository [blob ''package.json''] [(''package.json'', empty_scripts)])
        ''octocat'' ''hello'' ''main''))
     = Some []"
proof -
  have parse: "JSON_parse manifest_runtime empty_scripts =
     Some (JObj [(''scripts'', JObj [(''start'', JStr []), (''test'', JStr [])]),
                 (''main'', JStr ''lib.js'')])"
    by (simp add: manifest_runtime_def)
  have facts: "facts_of (analyzeRepo manifest_runtime
          (repository [blob ''package.json''] [(''package.json'', empty_scripts)])
          ''octocat'' ''hello'' ''main'')
        = Some (detect manifest_runtime [blob ''package.json''] [(''package.json'', empty_scripts)])"
    by (simp only: facts_of_unfold [OF getTree_repository] found_only_manifest
        snippets_only_manifest [OF manifests_short(1,2)])
  have stage: "package_json manifest_runtime [(''package.json'', empty_scripts)] nothing_detected =
      nothing_detected\<lparr>packageManager := Some ''npm|yarn'', entrypoint := Some (JStr ''node lib.js''),
        runCommands := [JStr [], JStr []]\<rparr>"
    using manifests_short(1)
    by (simp add: package_json_def parse nothing_detected_def Let_def truthy_def js_or_def)
  have no_folder: "\<not> test_folder ''package.json''"
    by (simp add: test_folder_def test_name_here_def ci_prefix_simps regex_canon_def)
  have "detect manifest_runtime [blob ''package.json''] [(''package.json'', empty_scripts)] =
      nothing_detected\<lparr>packageManager := Some ''npm|yarn'', entrypoint := Some (JStr ''node lib.js''),
        runCommands := [JStr [], JStr []]\<rparr>"
    unfolding detect_def stage
    by (simp add: python_def fetched_def docker_def ci_def readme_license_def tests_def
        run_fallback_def nothing_detected_def no_folder blob_def CI_PATH_PREFIX_def startsWith_def
        regex_test_ci_def ci_prefix_simps regex_canon_def)
  with parse facts show ?thesis
    by (simp add: nothing_detected_def)
qed


lemma length_long_manifest: "length long_manifest = 2068"
  by (simp add: long_manifest_def)

lemma long_snippet:
  "length (shortSnippet long_manifest 2000) = 2015"
  "shortSnippet long_manifest 2000 \<noteq> []"
  "shortSnippet long_manifest 2000 \<noteq> long_manifest"
proof -
  show l: "length (shortSnippet long_manifest 2000) = 2015"
    by (simp add: shortSnippet_def length_long_manifest) (simp add: long_manifest_def)
  then show "shortSnippet long_manifest 2000 \<noteq> []" by auto
  show "shortSnippet long_manifest 2000 \<noteq> long_manifest"
  proof
    assume "shortSnippet long_manifest 2000 = long_manifest"
    then have "length (shortSnippet long_manifest 2000) = length long_manifest" by simp
    with l length_long_manifest show False by simp
  qed
qed

lemma snippets_long_manifest:
  "fst (fetch_all (repository tree [(''package.json'', long_manifest)])
          (take 40 (toFetch [''package.json''])) ([], []))
     = [(''package.json'', shortSnippet long_manifest 2000)]"
proof -
  have "long_manifest \<noteq> []" using length_long_manifest by auto
  then show ?thesis
    by (simp add: toFetch_shape priority_def safeGetFile_repository)
qed

lemma detect_unparsed_manifest:
  assumes "t \<noteq> []" "JSON_parse rt t = None"
  shows "detect rt [blob ''package.json''] [(''package.json'', t)] =
           nothing_detected\<lparr>runCommands := [JStr ''Check project files for run instructions'']\<rparr>"
proof -
  have stage: "package_json rt [(''package.json'', t)] nothing_detected = nothing_detected"
    using assms by (simp add: package_json_def)
  have no_folder: "\<not> test_folder ''package.json''"
    by (simp add: test_folder_def test_name_here_def ci_prefix_simps regex_canon_def)
  show ?thesis
    unfolding detect_def stage
    by (simp add: python_def fetched_def docker_def ci_def readme_license_def tests_def
        run_fallback_def nothing_detected_def no_folder blob_def CI_PATH_PREFIX_def startsWith_def
        regex_test_ci_def ci_prefix_simps regex_canon_def)
qed

lemma long_manifest_evaluated:
  "JSON_parse long_runtime long_manifest =
     Some (JObj [(''scripts'', JObj [(''start'', JStr ''node index.js''), (''test'', JStr ''jest'')]),
                 (''description'', JStr (replicate 2000 (CHR ''x'')))]) \<and>
   map_option entrypoint
     (facts_of (analyzeRepo long_runtime
        (repository [blob ''package.json''] [(''package.json'', long_manifest)])
        ''octocat'' ''hello'' ''main''))
     = Some None \<and>
   map_option hasTests
     (facts_of (analyzeRepo long_runtime
        (repository [blob ''package.json''] [(''package.json'', long_manifest)])
        ''octocat'' ''hello'' ''main''))
     = Some False"
proof -
  have parse: "JSON_parse long_runtime long_manifest =
     Some (JObj [(''scripts'', JObj [(''start'', JStr ''node index.js''), (''test'', JStr ''jest'')]),
                 (''description'', JStr (replicate 2000 (CHR ''x'')))])"
    by (simp add: long_runtime_def)
  have cut: "JSON_parse long_runtime (shortSnippet long_manifest 2000) = None"
    using long_snippet(3) by (simp add: long_runtime_def)
  have facts: "facts_of (analyzeRepo long_runtime
          (repository [blob ''package.json''] [(''package.json'', long_manifest)])
          ''octocat'' ''hello'' ''main'')
        = Some (detect long_runtime [blob ''package.json'']
                 [(''package.json'', shortSnippet long_manifest 2000)])"
    by (simp only: facts_of_unfold [OF getTree_repository] found_only_manifest snippets_long_manifest)
  show ?thesis
    unfolding facts detect_unparsed_manifest [OF long_snippet(2) cut]
    using parse by (simp add: nothing_detected_def)
qed

text \<open>
  C7 as stated fails, in two ways. Scripts declared as empty strings are false in the
  conditions of lines 175 and 176: the entry point is then the \<open>main\<close> fallback, \<open>hasTests\<close>
  stays false and \<open>testCommands\<close> empty. And a manifest longer than 2000 characters is
  parsed after it has been cut: it parses as JSON, its snippet does not, and nothing is
  taken from it.
\<close>

theorem manifest_scripts_not_detected:
  "(JSON_parse manifest_runtime empty_scripts =
     Some (JObj [(''scripts'', JObj [(''start'', JStr []), (''test'', JStr [])]),
                 (''main'', JStr ''lib.js'')]) \<and>
   map_option entrypoint
     (facts_of (analyzeRepo manifest_runtime
        (repository [blob ''package.json''] [(''package.json'', empty_scripts)])
        ''octocat'' ''hello'' ''main''))
     = Some (Some (JStr ''node lib.js'')) \<and>
   map_option hasTests
     (facts_of (analyzeRepo manifest_runtime
        (repository [blob ''package.json''] [(''package.json'', empty_scripts)])
        ''octocat'' ''hello'' ''main''))
     = Some False \<and>
   map_option testCommands
     (facts_of (analyzeRepo manifest_runtime
        (repository [blob ''package.json''] [(''package.json'', empty_scripts)])
        ''octocat'' ''hello'' ''main''))
     = Some []) \<and>
   (JSON_parse long_runtime long_manifest =
     Some (JObj [(''scripts'', JObj [(''start'', JStr ''node index.js''), (''test'', JStr ''jest'')]),
                 (''description'', JStr (replicate 2000 (CHR ''x'')))]) \<and>
   map_option entrypoint
     (facts_of (analyzeRepo long_runtime
        (repository [blob ''package.json''] [(''package.json'', long_manifest)])
        ''octocat'' ''hello'' ''main''))
     = Some None \<and>
   map_option hasTests
     (facts_of (analyzeRepo long_runtime
        (repository [blob ''package.json''] [(''package.json'', long_manifest)])
        ''octocat'' ''hello'' ''main''))
     = Some False)"
  using empty_scripts_evaluated long_manifest_evaluated by (rule conjI)

subsection \<open>Readme and licence\<close>

lemma char_of_eq_nat: "char_of (n :: nat) = c \<longleftrightarrow> n mod 256 = of_char c"
  by (simp add: char_of_eq_iff take_bit_eq_mod)

lemma eq_char_of_nat: "c = char_of (n :: nat) \<longleftrightarrow> n mod 256 = of_char c"
  using char_of_eq_nat [of n c] by auto

lemmas char_of_eq_simps = char_of_eq_nat eq_char_of_nat

lemma set_interesting_files:
  "set (interesting_files tree acc) =
     set acc \<union> {path item | item. item \<in> set tree \<and> type item = ''blob'' \<and>
                   (path item \<in> set PATHS_OF_INTEREST \<or> startsWith (path item) CI_PATH_PREFIX \<or>
                    js_includes (toLowerCase (path item)) ''readme'')}"
  by (induction tree acc rule: interesting_files.induct) auto

lemma set_workflow_files:
  "set (workflow_files tree acc) =
     set acc \<union> {path item | item. item \<in> set tree \<and> type item = ''blob'' \<and>
                   startsWith (path item) CI_PATH_PREFIX}"
  by (induction tree acc rule: workflow_files.induct) auto

lemma interesting_names_no_license:
  "p \<in> set priority \<union> set PATHS_OF_INTEREST \<Longrightarrow> \<not> regex_test_ci ''license'' p"
  by (auto simp: priority_def PATHS_OF_INTEREST_def regex_test_ci_def ci_prefix_simps regex_canon_def)

lemma find_Some_mem: "find P xs = Some x \<Longrightarrow> P x \<and> x \<in> set xs"
  by (induction xs) (auto split: if_splits)

lemma license_only_if_selected:
  assumes tree: "getTree oct = Some tree"
    and facts: "facts_of (analyzeRepo rt oct owner nm rf) = Some d"
    and lic: "license d = Some p"
  shows "regex_test_ci ''license'' p \<and>
         (\<exists>item \<in> set tree. path item = p \<and> type item = ''blob'' \<and>
            (startsWith p CI_PATH_PREFIX \<or> js_includes (toLowerCase p) ''readme''))"
proof -
  let ?found = "workflow_files tree (interesting_files tree [])"
  let ?ps = "take 40 (toFetch ?found)"
  let ?fc = "fst (fetch_all oct ?ps ([], []))"
  have d: "d = detect rt tree ?fc"
    using facts by (simp add: facts_of_unfold [OF tree])
  have "present (find (regex_test_ci ''license'') (map fst ?fc)) = Some p"
    using lic by (simp add: d detect_license)
  then have "find (regex_test_ci ''license'') (map fst ?fc) = Some p"
    by (simp add: present_Some_iff)
  from find_Some_mem [OF this] have m: "regex_test_ci ''license'' p" and k: "p \<in> fst ` set ?fc"
    by auto
  from k have "map_of ?fc p \<noteq> None"
    by (simp add: map_of_eq_None_iff)
  then have "p \<in> set ?ps"
    by (simp add: fetch_all_snippets split: if_splits)
  then have "p \<in> set (toFetch ?found)" by (rule in_set_takeD)
  then have "p \<in> set priority \<or> p \<in> set ?found"
    by (auto simp: toFetch_shape set_keep)
  with m interesting_names_no_license [of p]
  have "p \<in> set ?found" "p \<notin> set PATHS_OF_INTEREST" by auto
  then have "\<exists>item \<in> set tree. path item = p \<and> type item = ''blob'' \<and>
            (startsWith p CI_PATH_PREFIX \<or> js_includes (toLowerCase p) ''readme'')"
    by (auto simp: set_workflow_files set_interesting_files)
  with m show ?thesis by blast
qed

text \<open>
  The licence is looked up among the keys of \<open>fileContents\<close>, and only paths selected in
  lines 110 to 131 are fetched: a path can become \<open>license\<close> only if it is a blob under
  the workflow directory or one whose name contains \<open>readme\<close>.
\<close>

lemma found_licensed:
  "workflow_files licensed_tree (interesting_files licensed_tree []) = [''README.md'']"
  by (simp add: licensed_tree_def blob_def PATHS_OF_INTEREST_def CI_PATH_PREFIX_def startsWith_def
      toLowerCase_def toLowerCase_unit_def char_of_eq_simps)

lemma toFetch_licensed: "take 40 (toFetch [''README.md'']) = priority @ [''README.md'']"
  by (simp add: toFetch_shape length_priority) (simp add: priority_def)

lemma snippets_licensed:
  "fst (fetch_all (repository licensed_tree licensed_files) (priority @ [''README.md'']) ([], []))
     = [(''README.md'', ''# Hello'')]"
  by (simp add: priority_def safeGetFile_repository licensed_files_def shortSnippet_def)

text \<open>
  C8 on a repository with a \<open>README.md\<close> and a \<open>LICENSE\<close>, both served by the API: the path
  \<open>LICENSE\<close> matches \<open>/license/i\<close>, but it is not among the paths requested (the ten
  priority names and \<open>README.md\<close>), so \<open>license\<close> stays \<open>null\<close>; \<open>readme\<close> is the text of
  the readme.
\<close>

theorem license_file_not_detected:
  "regex_test_ci ''license'' ''LICENSE'' \<and>
   fst (analyzeRepo plain_runtime (repository licensed_tree licensed_files) ''octocat'' ''hello'' ''main'')
     = priority @ [''README.md''] \<and>
   map_option license
     (facts_of (analyzeRepo plain_runtime (repository licensed_tree licensed_files)
        ''octocat'' ''hello'' ''main''))
     = Some None \<and>
   map_option readme
     (facts_of (analyzeRepo plain_runtime (repository licensed_tree licensed_files)
        ''octocat'' ''hello'' ''main''))
     = Some (Some ''# Hello'')"
proof -
  have m: "regex_test_ci ''license'' ''LICENSE''"
    by (simp add: regex_test_ci_def ci_prefix_simps regex_canon_def char_of_eq_simps)
  have calls: "fst (analyzeRepo plain_runtime (repository licensed_tree licensed_files)
                  ''octocat'' ''hello'' ''main'') = priority @ [''README.md'']"
    by (simp only: analyzeRepo_called getTree_repository option.case found_licensed toFetch_licensed)
  have facts: "facts_of (analyzeRepo plain_runtime (repository licensed_tree licensed_files)
                  ''octocat'' ''hello'' ''main'')
        = Some (detect plain_runtime licensed_tree [(''README.md'', ''# Hello'')])"
    by (simp only: facts_of_unfold [OF getTree_repository] found_licensed toFetch_licensed
        snippets_licensed)
  have l: "license (detect plain_runtime licensed_tree [(''README.md'', ''# Hello'')]) = None"
    by (simp add: detect_license regex_test_ci_def ci_prefix_simps regex_canon_def char_of_eq_simps)
  have r: "readme (detect plain_runtime licensed_tree [(''README.md'', ''# Hello'')]) = Some ''# Hello''"
    by (simp add: detect_readme regex_test_ci_def ci_prefix_simps regex_canon_def shortSnippet_def
        char_of_eq_simps)
  from m calls facts l r show ?thesis by simp
qed


end
